theory Spec2Isabelle
  imports Main "HOL-Library.Word"
begin

unbundle bit_operations_syntax

text \<open>
  A shallow embedding of the class \<open>BulkLoad\<close> of \<open>src/bulk-load.js\<close>, which builds the
  payload of a TDS bulk insert: a column-metadata token, one row token per added row
  and a DONE token. A method that assigns fields of the instance is a function from the
  instance to the outcome of the call and the instance after it; a \<open>throw\<close> is the
  outcome \<open>Inl\<close>. The type descriptors are external objects and appear as records of
  functions; the tracking buffer and the token-type markers live in modules that are
  not part of the source at hand, and are modelled from the specification and taken as
  a parameter respectively. Strings are lists of 8-bit characters, compared and
  measured by character.
\<close>

section \<open>JavaScript values and errors\<close>

text \<open>
  The values a caller can hand to the bulk-load class. Numbers are represented by the
  integers and NaN only, and a function by a number that identifies it. An array, that
  is an object that is an instance of \<open>Array\<close>, is the list of its elements; no object of
  its prototype chain has an index property. Any other object is given by its prototype
  chain: the list of the property tables of the object itself and then of each of its
  prototypes in turn, none of which is \<open>Array.prototype\<close>. In a table the first entry for
  a key is the one that is read. A property is listed with the value that reading it
  gives: a property with a getter, such as \<open>__proto__\<close>, with what the getter returns
  for the object that is read. An object whose property reads run code that throws (a
  throwing getter, a proxy) is not represented.
\<close>

datatype js_value =
    JUndefined
  | JNull
  | JBool bool
  | JNum int
  | JNaN
  | JStr string
  | JFunction nat
  | JArr "js_value list"
  | JObj "(string \<times> js_value) list list"

text \<open>
  What the code throws: \<open>new TypeError(msg)\<close>, \<open>new Error(msg)\<close>, and the range error
  of a fixed-width write. A type descriptor may throw any of them.
\<close>

datatype error = TypeError string | Error string | RangeError string

type_synonym byte = "8 word"

fun typeof :: "js_value \<Rightarrow> string" where
  "typeof JUndefined = ''undefined''"
| "typeof JNull = ''object''"
| "typeof (JBool b) = ''boolean''"
| "typeof (JNum n) = ''number''"
| "typeof JNaN = ''number''"
| "typeof (JStr s) = ''string''"
| "typeof (JFunction f) = ''function''"
| "typeof (JArr xs) = ''object''"
| "typeof (JObj chain) = ''object''"

text \<open>The operand of \<open>!\<close>: false, 0, NaN, the empty string, null and undefined are falsy.\<close>

fun truthy :: "js_value \<Rightarrow> bool" where
  "truthy JUndefined = False"
| "truthy JNull = False"
| "truthy (JBool b) = b"
| "truthy (JNum n) = (if n = 0 then False else True)"
| "truthy JNaN = False"
| "truthy (JStr s) = (if s = [] then False else True)"
| "truthy (JFunction f) = True"
| "truthy (JArr xs) = True"
| "truthy (JObj chain) = True"

text \<open>\<open>xs[i]\<close> on an array: undefined out of range.\<close>

definition js_index :: "js_value list \<Rightarrow> nat \<Rightarrow> js_value" where
  "js_index xs i = (if i < length xs then xs ! i else JUndefined)"

text \<open>
  \<open>row[key]\<close> on an object that is not an array: the property is looked up on the
  object and then on each object of its prototype chain in turn, and reads as undefined
  when none of them has it.
\<close>

fun chain_lookup :: "(string \<times> js_value) list list \<Rightarrow> string \<Rightarrow> js_value" where
  "chain_lookup [] k = JUndefined"
| "chain_lookup (kvs # protos) k =
     (case map_of kvs k of Some v \<Rightarrow> v | None \<Rightarrow> chain_lookup protos k)"

fun js_prop :: "js_value \<Rightarrow> string \<Rightarrow> js_value" where
  "js_prop (JObj chain) k = chain_lookup chain k"
| "js_prop v k = JUndefined"

text \<open>
  \<open>a < b\<close> on two strings compares code units from the left, a proper prefix being
  smaller; \<open>a >= b\<close> is by definition the negation of \<open>a < b\<close>.
\<close>

fun js_lt :: "string \<Rightarrow> string \<Rightarrow> bool" where
  "js_lt [] [] = False"
| "js_lt [] (y # ys) = True"
| "js_lt (x # xs) [] = False"
| "js_lt (x # xs) (y # ys) =
     (if (of_char x :: nat) < of_char y then True
      else if (of_char y :: nat) < of_char x then False
      else js_lt xs ys)"

definition js_ge :: "string \<Rightarrow> string \<Rightarrow> bool" where
  "js_ge a b = (if js_lt a b then False else True)"

text \<open>\<open>Array.prototype.join\<close> on strings.\<close>

fun js_join :: "string \<Rightarrow> string list \<Rightarrow> string" where
  "js_join sep [] = []"
| "js_join sep [x] = x"
| "js_join sep (x # y # ys) = x @ sep @ js_join sep (y # ys)"

text \<open>Sequencing of calls that may throw.\<close>

definition bindE :: "error + 'a \<Rightarrow> ('a \<Rightarrow> error + 'b) \<Rightarrow> error + 'b" where
  "bindE r f = (case r of Inl e \<Rightarrow> Inl e | Inr x \<Rightarrow> f x)"

section \<open>The tracking buffer\<close>

text \<open>
  Modelled from the spec: the class \<open>WritableTrackingBuffer\<close>
  (\<open>./tracking-buffer/writable-tracking-buffer\<close>) is not among the source files. The
  spec describes it as a growable byte arena with an append operation and a
  finalize-to-immutable-slice operation, and fixes the wire layout of what is written
  through it: one-byte markers, 2-byte and 4-byte little-endian fields, and a
  length-prefixed wide-character string. The record keeps the constructor's three
  arguments and the bytes written so far. The spec is silent on a value that does not
  fit the width of its field; here the write throws a range error, as the platform's
  buffer does, so that no byte sequence is invented for such a value.
\<close>

record WritableTrackingBuffer =
  initialSize :: nat
  encoding :: "string option"
  doubleSizeGrowth :: bool
  written :: "byte list"

definition new_WritableTrackingBuffer ::
  "nat \<Rightarrow> string option \<Rightarrow> bool \<Rightarrow> WritableTrackingBuffer" where
  "new_WritableTrackingBuffer sz enc dbl =
     \<lparr>initialSize = sz, encoding = enc, doubleSizeGrowth = dbl, written = []\<rparr>"

text \<open>Modelled from the spec: the \<open>data\<close> getter, the finalized slice of the bytes written.\<close>

definition data :: "WritableTrackingBuffer \<Rightarrow> byte list" where
  "data b = written b"

text \<open>Modelled from the spec: \<open>copyFrom\<close>, the append operation.\<close>

definition copyFrom :: "byte list \<Rightarrow> WritableTrackingBuffer \<Rightarrow> WritableTrackingBuffer" where
  "copyFrom bs b = b\<lparr>written := written b @ bs\<rparr>"

text \<open>Modelled from the spec: a one-byte field.\<close>

definition writeUInt8 :: "int \<Rightarrow> WritableTrackingBuffer \<Rightarrow> error + WritableTrackingBuffer" where
  "writeUInt8 v b =
     (if 0 \<le> v \<and> v < 2 ^ 8 then Inr (copyFrom [of_int v] b)
      else Inl (RangeError ''value is out of range''))"

text \<open>Modelled from the spec: a 2-byte little-endian field.\<close>

definition writeUInt16LE :: "int \<Rightarrow> WritableTrackingBuffer \<Rightarrow> error + WritableTrackingBuffer" where
  "writeUInt16LE v b =
     (if 0 \<le> v \<and> v < 2 ^ 16 then Inr (copyFrom [of_int v, of_int (v div 2 ^ 8)] b)
      else Inl (RangeError ''value is out of range''))"

text \<open>Modelled from the spec: a 4-byte little-endian field.\<close>

definition writeUInt32LE :: "int \<Rightarrow> WritableTrackingBuffer \<Rightarrow> error + WritableTrackingBuffer" where
  "writeUInt32LE v b =
     (if 0 \<le> v \<and> v < 2 ^ 32
      then Inr (copyFrom [of_int v, of_int (v div 2 ^ 8), of_int (v div 2 ^ 16),
                          of_int (v div 2 ^ 24)] b)
      else Inl (RangeError ''value is out of range''))"

text \<open>Modelled from the spec: a wide-character string, two bytes per character, low byte first.\<close>

definition ucs2 :: "string \<Rightarrow> byte list" where
  "ucs2 s = concat (map (\<lambda>c. [of_char c, 0]) s)"

text \<open>Modelled from the spec: a string prefixed by its length in one byte.\<close>

definition writeBVarchar :: "string \<Rightarrow> WritableTrackingBuffer \<Rightarrow> error + WritableTrackingBuffer" where
  "writeBVarchar s b = bindE (writeUInt8 (int (length s)) b) (\<lambda>b1. Inr (copyFrom (ucs2 s) b1))"

section \<open>Constants of the module\<close>

text \<open>
  The token-type markers come from \<open>./token/token\<close>, which is not among the source
  files: they are a parameter of every operation that writes one. Each is one byte.
\<close>

record TOKEN_TYPE =
  COLMETADATA :: byte
  ROW :: byte
  DONE :: byte

definition FLAGS_nullable :: int where "FLAGS_nullable = push_bit 0 1"
definition FLAGS_caseSen :: int where "FLAGS_caseSen = push_bit 1 1"
definition FLAGS_updateableReadWrite :: int where "FLAGS_updateableReadWrite = push_bit 2 1"
definition FLAGS_updateableUnknown :: int where "FLAGS_updateableUnknown = push_bit 3 1"
definition FLAGS_identity :: int where "FLAGS_identity = push_bit 4 1"
definition FLAGS_computed :: int where "FLAGS_computed = push_bit 5 1"
definition FLAGS_fixedLenCLRType :: int where "FLAGS_fixedLenCLRType = push_bit 8 1"
definition FLAGS_sparseColumnSet :: int where "FLAGS_sparseColumnSet = push_bit 10 1"
definition FLAGS_hidden :: int where "FLAGS_hidden = push_bit 13 1"
definition FLAGS_key :: int where "FLAGS_key = push_bit 14 1"
definition FLAGS_nullableUnknown :: int where "FLAGS_nullableUnknown = push_bit 15 1"

definition DONE_STATUS_FINAL :: int where "DONE_STATUS_FINAL = 0x00"
definition DONE_STATUS_MORE :: int where "DONE_STATUS_MORE = 0x1"
definition DONE_STATUS_ERROR :: int where "DONE_STATUS_ERROR = 0x2"
definition DONE_STATUS_INXACT :: int where "DONE_STATUS_INXACT = 0x4"
definition DONE_STATUS_COUNT :: int where "DONE_STATUS_COUNT = 0x10"
definition DONE_STATUS_ATTN :: int where "DONE_STATUS_ATTN = 0x20"
definition DONE_STATUS_SRVERROR :: int where "DONE_STATUS_SRVERROR = 0x100"

section \<open>Data model\<close>

text \<open>The connection options; the class reads the protocol version only.\<close>

record connection_options =
  tdsVersion :: string

text \<open>\<open>InternalOptions\<close>: the four flags as stored.\<close>

record InternalOptions =
  checkConstraints :: bool
  fireTriggers :: bool
  keepNulls :: bool
  lockTable :: bool

text \<open>
  \<open>Options\<close> as the constructor receives it: what reading each property gives, a
  property that is absent reading as undefined.
\<close>

record Options =
  opt_checkConstraints :: js_value
  opt_fireTriggers :: js_value
  opt_keepNulls :: js_value
  opt_lockTable :: js_value

text \<open>\<open>ColumnOptions\<close>: every property is optional, \<open>None\<close> being undefined.\<close>

record ColumnOptions =
  co_output :: "bool option"
  co_length :: "int option"
  co_precision :: "int option"
  co_scale :: "int option"
  co_objName :: "string option"
  co_nullable :: "bool option"

text \<open>
  \<open>Column\<close>. The fields other than \<open>type\<close> come first, so that the type descriptor's
  capabilities, which receive the column, can be typed: a capability sees the column
  without its \<open>type\<close> field, the descriptor being the receiver of the call.
  \<open>nullable\<close> can hold undefined (\<open>None\<close>), which \<open>getColMetaData\<close> and
  \<open>getTableCreationSql\<close> test for.
\<close>

record column_fields =
  col_name :: string
  col_value :: js_value
  col_output :: bool
  col_length :: "int option"
  col_precision :: "int option"
  col_scale :: "int option"
  col_objName :: string
  col_nullable :: "bool option"

text \<open>The object literal \<open>{length, scale, precision, value}\<close> that \<open>addRow\<close> builds.\<close>

record parameter =
  p_length :: "int option"
  p_scale :: "int option"
  p_precision :: "int option"
  p_value :: js_value

text \<open>
  The type descriptor, an external capability object (\<open>type: Object\<close>). The resolve
  capabilities are optional and may throw. \<open>writeParameterData\<close> and \<open>writeTypeInfo\<close>
  are handed a tracking buffer: their effect is the bytes they append to it, and the
  error they throw afterwards, if any. \<open>declaration\<close> (here \<open>type_declaration\<close>) returns SQL text or throws.
\<close>

record type_descriptor =
  type_id :: int
  resolveLength :: "(column_fields \<Rightarrow> error + int option) option"
  hasPrecision :: bool
  resolvePrecision :: "(column_fields \<Rightarrow> error + int option) option"
  hasScale :: bool
  resolveScale :: "(column_fields \<Rightarrow> error + int option) option"
  writeParameterData :: "parameter \<Rightarrow> connection_options \<Rightarrow> byte list \<times> error option"
  writeTypeInfo :: "column_fields \<Rightarrow> connection_options \<Rightarrow> byte list \<times> error option"
  type_declaration :: "column_fields \<Rightarrow> error + string"

record Column = column_fields +
  col_type :: type_descriptor

text \<open>
  The instance. The \<open>callback\<close> field is stored and never called by the class; it is
  left out.
\<close>

record BulkLoad =
  bl_error :: "error option"
  canceled :: bool
  table :: string
  timeout :: "int option"
  options :: connection_options
  columns :: "Column list"
  columnsByName :: "string \<Rightarrow> Column option"
  firstRowWritten :: bool
  rowsData :: WritableTrackingBuffer
  bulkOptions :: InternalOptions

section \<open>Operations\<close>

subsection \<open>constructor\<close>

text \<open>A destructuring default applies exactly when the property reads as undefined.\<close>

definition default_to :: "js_value \<Rightarrow> js_value \<Rightarrow> js_value" where
  "default_to v d = (if v = JUndefined then d else v)"

fun the_bool :: "js_value \<Rightarrow> bool" where
  "the_bool (JBool b) = b"
| "the_bool v = False"

definition constructor :: "string \<Rightarrow> connection_options \<Rightarrow> Options \<Rightarrow> error + BulkLoad" where
  \<open>constructor tbl connectionOptions opts =
     (let checkConstraints' = default_to (opt_checkConstraints opts) (JBool False);
          fireTriggers' = default_to (opt_fireTriggers opts) (JBool False);
          keepNulls' = default_to (opt_keepNulls opts) (JBool False);
          lockTable' = default_to (opt_lockTable opts) (JBool False)
      in
        if typeof checkConstraints' \<noteq> ''boolean'' then
          Inl (TypeError ''The "options.checkConstraints" property must be of type boolean.'')
        else if typeof fireTriggers' \<noteq> ''boolean'' then
          Inl (TypeError ''The "options.fireTriggers" property must be of type boolean.'')
        else if typeof keepNulls' \<noteq> ''boolean'' then
          Inl (TypeError ''The "options.keepNulls" property must be of type boolean.'')
        else if typeof lockTable' \<noteq> ''boolean'' then
          Inl (TypeError ''The "options.lockTable" property must be of type boolean.'')
        else
          Inr \<lparr>bl_error = None, canceled = False, table = tbl, timeout = None,
               options = connectionOptions, columns = [], columnsByName = Map.empty,
               firstRowWritten = False,
               rowsData = new_WritableTrackingBuffer 1024 (Some ''ucs2'') True,
               bulkOptions = \<lparr>checkConstraints = the_bool checkConstraints',
                               fireTriggers = the_bool fireTriggers',
                               keepNulls = the_bool keepNulls',
                               lockTable = the_bool lockTable'\<rparr>\<rparr>)\<close>

subsection \<open>addColumn\<close>

definition resolve_length :: "Column \<Rightarrow> error + Column" where
  "resolve_length column =
     (if type_id (col_type column) AND 0x30 = 0x20 then
        (case resolveLength (col_type column) of
           Some f \<Rightarrow>
             (if col_length column = None
              then bindE (f (column_fields.truncate column))
                     (\<lambda>l. Inr (column\<lparr>col_length := l\<rparr>))
              else Inr column)
         | None \<Rightarrow> Inr column)
      else Inr column)"

definition resolve_precision :: "Column \<Rightarrow> error + Column" where
  "resolve_precision column =
     (if hasPrecision (col_type column) then
        (case resolvePrecision (col_type column) of
           Some f \<Rightarrow>
             (if col_precision column = None
              then bindE (f (column_fields.truncate column))
                     (\<lambda>p. Inr (column\<lparr>col_precision := p\<rparr>))
              else Inr column)
         | None \<Rightarrow> Inr column)
      else Inr column)"

definition resolve_scale :: "Column \<Rightarrow> error + Column" where
  "resolve_scale column =
     (if hasScale (col_type column) then
        (case resolveScale (col_type column) of
           Some f \<Rightarrow>
             (if col_scale column = None
              then bindE (f (column_fields.truncate column))
                     (\<lambda>sc. Inr (column\<lparr>col_scale := sc\<rparr>))
              else Inr column)
         | None \<Rightarrow> Inr column)
      else Inr column)"

text \<open>
  The result is the outcome of the call and the instance after it: a throw leaves the
  instance as the statements before it made it.
\<close>

definition addColumn ::
  "string \<Rightarrow> type_descriptor \<Rightarrow> ColumnOptions \<Rightarrow> BulkLoad \<Rightarrow> (error + unit) \<times> BulkLoad" where
  "addColumn name ty copts this =
     (if firstRowWritten this then
        (Inl (Error ''Columns cannot be added to bulk insert after the first row has been written.''),
         this)
      else
        let column =
              \<lparr>col_name = name,
               col_value = JNull,
               col_output = (case co_output copts of None \<Rightarrow> False | Some b \<Rightarrow> b),
               col_length = co_length copts,
               col_precision = co_precision copts,
               col_scale = co_scale copts,
               col_objName = (case co_objName copts of None \<Rightarrow> name | Some n \<Rightarrow> n),
               col_nullable = Some (case co_nullable copts of None \<Rightarrow> True | Some b \<Rightarrow> b),
               col_type = ty\<rparr>
        in case bindE (resolve_length column)
                  (\<lambda>c1. bindE (resolve_precision c1) resolve_scale) of
             Inl e \<Rightarrow> (Inl e, this)
           | Inr column' \<Rightarrow>
               (Inr (),
                this\<lparr>columns := columns this @ [column'],
                     columnsByName := (columnsByName this)(name \<mapsto> column')\<rparr>))"

subsection \<open>addRow\<close>

text \<open>Lines 167 to 172: the choice between the argument list and its only element.\<close>

definition row_of :: "js_value list \<Rightarrow> js_value" where
  "row_of input =
     (if 1 < length input then JArr input
      else if truthy (js_index input 0) then
        (if typeof (js_index input 0) = ''object'' then js_index input 0 else JArr input)
      else JArr input)"

text \<open>
  The two loops of lines 178 to 198 differ in the value they read for a column only:
  \<open>row[i]\<close> when the row is an array, \<open>row[c.objName]\<close> otherwise.
\<close>

definition value_at :: "js_value \<Rightarrow> nat \<Rightarrow> Column \<Rightarrow> js_value" where
  "value_at row i c =
     (case row of JArr xs \<Rightarrow> js_index xs i | _ \<Rightarrow> js_prop row (col_objName c))"

text \<open>
  The loop over the columns from index \<open>i\<close>: each descriptor appends its bytes, and a
  throw ends the loop with the buffer as it is then.
\<close>

fun write_columns ::
  "connection_options \<Rightarrow> js_value \<Rightarrow> nat \<Rightarrow> Column list \<Rightarrow> WritableTrackingBuffer
     \<Rightarrow> (error + unit) \<times> WritableTrackingBuffer" where
  "write_columns opts row i [] buf = (Inr (), buf)"
| "write_columns opts row i (c # cs) buf =
     (case writeParameterData (col_type c)
             \<lparr>p_length = col_length c, p_scale = col_scale c,
              p_precision = col_precision c, p_value = value_at row i c\<rparr> opts of
        (bs, Some e) \<Rightarrow> (Inl e, copyFrom bs buf)
      | (bs, None) \<Rightarrow> write_columns opts row (Suc i) cs (copyFrom bs buf))"

definition addRow :: "TOKEN_TYPE \<Rightarrow> js_value list \<Rightarrow> BulkLoad \<Rightarrow> (error + unit) \<times> BulkLoad" where
  "addRow TT input this =
     (let this1 = this\<lparr>firstRowWritten := True\<rparr>;
          row = row_of input
      in case writeUInt8 (uint (ROW TT)) (rowsData this1) of
           Inl e \<Rightarrow> (Inl e, this1)
         | Inr buf \<Rightarrow>
             (case write_columns (options this1) row 0 (columns this1) buf of
                (r, buf') \<Rightarrow> (r, this1\<lparr>rowsData := buf'\<rparr>)))"

text \<open>
  The call of lines 181 to 186 and 191 to 196 for one column, as a function of the value
  read for it: \<open>c.type.writeParameterData(this.rowsData, {length: c.length, scale:
  c.scale, precision: c.precision, value: v}, this.options)\<close>.
\<close>

definition encoder_call :: "connection_options \<Rightarrow> Column \<Rightarrow> js_value \<Rightarrow> byte list \<times> error option" where
  "encoder_call opts c v =
     writeParameterData (col_type c)
       \<lparr>p_length = col_length c, p_scale = col_scale c,
        p_precision = col_precision c, p_value = v\<rparr> opts"

text \<open>
  The row buffer's contract in the words of the spec, for comparison with \<open>addRow\<close>: the
  registry is marked frozen, a row-token marker byte is written, and then, for each
  column in registry order, the type descriptor's value encoder is invoked with the
  column's length, scale and precision and the value for that column, the bytes it
  produces being appended to the row buffer, up to the first encoder that throws.
  \<open>spec_encode_columns\<close> gives the bytes appended for the columns from index \<open>i\<close> and the
  error thrown, if any, when the value for column \<open>c\<close> at index \<open>j\<close> is \<open>V j c\<close>.
\<close>

fun spec_encode_columns ::
  "connection_options \<Rightarrow> (nat \<Rightarrow> Column \<Rightarrow> js_value) \<Rightarrow> nat \<Rightarrow> Column list
     \<Rightarrow> byte list \<times> error option" where
  "spec_encode_columns opts V i [] = ([], None)"
| "spec_encode_columns opts V i (c # cs) =
     (case encoder_call opts c (V i c) of
        (bs, Some e) \<Rightarrow> (bs, Some e)
      | (bs, None) \<Rightarrow>
          (case spec_encode_columns opts V (Suc i) cs of (rest, r) \<Rightarrow> (bs @ rest, r)))"

definition spec_append_row ::
  "TOKEN_TYPE \<Rightarrow> (nat \<Rightarrow> Column \<Rightarrow> js_value) \<Rightarrow> BulkLoad \<Rightarrow> (error + unit) \<times> BulkLoad" where
  "spec_append_row TT V this =
     (case spec_encode_columns (options this) V 0 (columns this) of
        (bs, r) \<Rightarrow>
          ((case r of None \<Rightarrow> Inr () | Some e \<Rightarrow> Inl e),
           this\<lparr>firstRowWritten := True,
                rowsData := copyFrom (ROW TT # bs) (rowsData this)\<rparr>))"

subsection \<open>Command text\<close>

definition getOptionsSql :: "BulkLoad \<Rightarrow> string" where
  "getOptionsSql this =
     (let addOptions =
            (if checkConstraints (bulkOptions this) then [''CHECK_CONSTRAINTS''] else [])
          @ (if fireTriggers (bulkOptions this) then [''FIRE_TRIGGERS''] else [])
          @ (if keepNulls (bulkOptions this) then [''KEEP_NULLS''] else [])
          @ (if lockTable (bulkOptions this) then [''TABLOCK''] else [])
      in if 0 < length addOptions then '' WITH ('' @ js_join '','' addOptions @ '')'' else [])"

fun bulk_insert_columns :: "nat \<Rightarrow> Column list \<Rightarrow> string \<Rightarrow> error + string" where
  "bulk_insert_columns i [] sql = Inr sql"
| "bulk_insert_columns i (c # cs) sql =
     bindE (type_declaration (col_type c) (column_fields.truncate c))
       (\<lambda>d. bulk_insert_columns (Suc i) cs
               ((if i = 0 then sql else sql @ '', '') @ ''['' @ col_name c @ ''] '' @ d))"

definition getBulkInsertSql :: "BulkLoad \<Rightarrow> error + string" where
  "getBulkInsertSql this =
     bindE (bulk_insert_columns 0 (columns this) (''insert bulk '' @ table this @ ''(''))
       (\<lambda>sql. Inr (sql @ '')'' @ getOptionsSql this))"

fun table_creation_columns :: "nat \<Rightarrow> Column list \<Rightarrow> string \<Rightarrow> error + string" where
  "table_creation_columns i [] sql = Inr sql"
| "table_creation_columns i (c # cs) sql =
     bindE (type_declaration (col_type c) (column_fields.truncate c))
       (\<lambda>d. table_creation_columns (Suc i) cs
               ((if i = 0 then sql else sql @ [CHR '','', CHR 0x0A]) @ ''['' @ col_name c @ ''] '' @ d
                @ (case col_nullable c of
                     None \<Rightarrow> []
                   | Some n \<Rightarrow> '' '' @ (if n then ''NULL'' else ''NOT NULL''))))"

definition getTableCreationSql :: "BulkLoad \<Rightarrow> error + string" where
  "getTableCreationSql this =
     bindE (table_creation_columns 0 (columns this)
              (''CREATE TABLE '' @ table this @ [CHR ''('', CHR 0x0A]))
       (\<lambda>sql. Inr (sql @ [CHR 0x0A, CHR '')'']))"

subsection \<open>getColMetaData\<close>

text \<open>Lines 307 to 312: the flags of one column.\<close>

definition column_flags :: "connection_options \<Rightarrow> Column \<Rightarrow> int" where
  "column_flags opts c =
     (let flags = FLAGS_updateableReadWrite
      in if col_nullable c = Some True then flags OR FLAGS_nullable
         else if col_nullable c = None \<and> js_ge (tdsVersion opts) ''7_2''
           then flags OR FLAGS_nullableUnknown
         else flags)"

fun write_columns_meta ::
  "connection_options \<Rightarrow> Column list \<Rightarrow> WritableTrackingBuffer \<Rightarrow> error + WritableTrackingBuffer" where
  "write_columns_meta opts [] tBuf = Inr tBuf"
| "write_columns_meta opts (c # cs) tBuf =
     bindE (if js_lt (tdsVersion opts) ''7_2'' then writeUInt16LE 0 tBuf
            else writeUInt32LE 0 tBuf)
       (\<lambda>b1. bindE (writeUInt16LE (column_flags opts c) b1)
         (\<lambda>b2. case writeTypeInfo (col_type c) (column_fields.truncate c) opts of
                  (bs, Some e) \<Rightarrow> Inl e
                | (bs, None) \<Rightarrow>
                    bindE (writeBVarchar (col_name c) (copyFrom bs b2))
                      (\<lambda>b3. write_columns_meta opts cs b3)))"

definition getColMetaData :: "TOKEN_TYPE \<Rightarrow> BulkLoad \<Rightarrow> error + byte list" where
  "getColMetaData TT this =
     bindE (writeUInt8 (uint (COLMETADATA TT)) (new_WritableTrackingBuffer 100 None True))
       (\<lambda>b1. bindE (writeUInt16LE (int (length (columns this))) b1)
         (\<lambda>b2. bindE (write_columns_meta (options this) (columns this) b2)
           (\<lambda>tBuf. Inr (data tBuf))))"

subsection \<open>getPayload\<close>

text \<open>Lines 269 to 277: the DONE token.\<close>

definition done_token :: "TOKEN_TYPE \<Rightarrow> connection_options \<Rightarrow> error + WritableTrackingBuffer" where
  "done_token TT opts =
     (let tBuf = new_WritableTrackingBuffer (if js_lt (tdsVersion opts) ''7_2'' then 9 else 13)
                   None False;
          status = DONE_STATUS_FINAL
      in bindE (writeUInt8 (uint (DONE TT)) tBuf)
           (\<lambda>b1. bindE (writeUInt16LE status b1)
             (\<lambda>b2. bindE (writeUInt16LE 0 b2)
               (\<lambda>b3. bindE (writeUInt32LE 0 b3)
                 (\<lambda>b4. if js_ge (tdsVersion opts) ''7_2'' then writeUInt32LE 0 b4
                        else Inr b4)))))"

definition getPayload :: "TOKEN_TYPE \<Rightarrow> BulkLoad \<Rightarrow> error + WritableTrackingBuffer" where
  "getPayload TT this =
     bindE (getColMetaData TT this)
       (\<lambda>metaData.
          let rows = data (rowsData this)
          in bindE (done_token TT (options this))
               (\<lambda>tBuf.
                  let done = data tBuf;
                      len = length metaData + length rows + length done;
                      payload = new_WritableTrackingBuffer len None False
                  in Inr (copyFrom done (copyFrom rows (copyFrom metaData payload)))))"

subsection \<open>setTimeout\<close>

definition setTimeout :: "int option \<Rightarrow> BulkLoad \<Rightarrow> BulkLoad" where
  "setTimeout t this = this\<lparr>timeout := t\<rparr>"

subsection \<open>Sequences of calls\<close>

text \<open>
  The methods of the class as calls, and the instance after a call whatever its
  outcome. The four getters assign no field.
\<close>

datatype call =
    AddColumn string type_descriptor ColumnOptions
  | AddRow "js_value list"
  | GetOptionsSql
  | GetBulkInsertSql
  | GetTableCreationSql
  | GetPayload
  | GetColMetaData
  | SetTimeout "int option"

fun exec :: "TOKEN_TYPE \<Rightarrow> call \<Rightarrow> BulkLoad \<Rightarrow> BulkLoad" where
  "exec TT (AddColumn name ty copts) this = snd (addColumn name ty copts this)"
| "exec TT (AddRow input) this = snd (addRow TT input this)"
| "exec TT GetOptionsSql this = this"
| "exec TT GetBulkInsertSql this = this"
| "exec TT GetTableCreationSql this = this"
| "exec TT GetPayload this = this"
| "exec TT GetColMetaData this = this"
| "exec TT (SetTimeout t) this = setTimeout t this"

fun run :: "TOKEN_TYPE \<Rightarrow> call list \<Rightarrow> BulkLoad \<Rightarrow> BulkLoad" where
  "run TT [] this = this"
| "run TT (c # cs) this = run TT cs (exec TT c this)"

fun is_AddColumn :: "call \<Rightarrow> bool" where
  "is_AddColumn (AddColumn name ty copts) = True"
| "is_AddColumn c = False"

fun is_AddRow :: "call \<Rightarrow> bool" where
  "is_AddRow (AddRow input) = True"
| "is_AddRow c = False"

section \<open>Sample inputs\<close>

text \<open>
  Concrete inputs for the closed theorems below: the three token-type markers of the
  protocol, two protocol versions, a one-byte integer type whose value encoder writes a
  length byte and then rejects a value that does not fit in a byte, a type whose
  type-information writer throws, and the instance that
  \<open>new BulkLoad('t', {tdsVersion: '7_4'}, {})\<close> constructs.
\<close>

definition ex_TOKEN_TYPE :: TOKEN_TYPE where
  "ex_TOKEN_TYPE = \<lparr>COLMETADATA = 0x81, ROW = 0xD1, DONE = 0xFD\<rparr>"

definition ex_tds_7_1 :: connection_options where
  "ex_tds_7_1 = \<lparr>tdsVersion = ''7_1''\<rparr>"

definition ex_tds_7_4 :: connection_options where
  "ex_tds_7_4 = \<lparr>tdsVersion = ''7_4''\<rparr>"

definition ex_no_Options :: Options where
  "ex_no_Options =
     \<lparr>opt_checkConstraints = JUndefined, opt_fireTriggers = JUndefined,
      opt_keepNulls = JUndefined, opt_lockTable = JUndefined\<rparr>"

definition ex_no_ColumnOptions :: ColumnOptions where
  "ex_no_ColumnOptions =
     \<lparr>co_output = None, co_length = None, co_precision = None, co_scale = None,
      co_objName = None, co_nullable = None\<rparr>"

definition ex_TinyInt :: type_descriptor where
  "ex_TinyInt =
     \<lparr>type_id = 0x30,
      resolveLength = None,
      hasPrecision = False,
      resolvePrecision = None,
      hasScale = False,
      resolveScale = None,
      writeParameterData =
        (\<lambda>p opts. case p_value p of
           JNum n \<Rightarrow>
             (if 0 \<le> n \<and> n < 256 then ([1, of_int n], None)
              else ([1], Some (RangeError ''value is out of range'')))
         | _ \<Rightarrow> ([0], None)),
      writeTypeInfo = (\<lambda>c opts. ([0x26, 1], None)),
      type_declaration = (\<lambda>c. Inr ''tinyint'')\<rparr>"

definition ex_Unsupported :: type_descriptor where
  "ex_Unsupported =
     ex_TinyInt\<lparr>writeTypeInfo := (\<lambda>c opts. ([], Some (Error ''type not supported'')))\<rparr>"

definition ex_BulkLoad :: BulkLoad where
  "ex_BulkLoad =
     \<lparr>bl_error = None, canceled = False, table = ''t'', timeout = None,
      options = ex_tds_7_4, columns = [], columnsByName = Map.empty,
      firstRowWritten = False,
      rowsData = new_WritableTrackingBuffer 1024 (Some ''ucs2'') True,
      bulkOptions = \<lparr>checkConstraints = False, fireTriggers = False,
                      keepNulls = False, lockTable = False\<rparr>\<rparr>"

text \<open>
  The column that \<open>addColumn(name, TinyInt, {})\<close> registers, and the instance after
  \<open>addColumn('a', TinyInt, {})\<close> and \<open>addColumn('b', TinyInt, {})\<close>.
\<close>

definition ex_column :: "string \<Rightarrow> Column" where
  "ex_column name =
     \<lparr>col_name = name, col_value = JNull, col_output = False, col_length = None,
      col_precision = None, col_scale = None, col_objName = name,
      col_nullable = Some True, col_type = ex_TinyInt\<rparr>"

definition ex_two_columns :: BulkLoad where
  "ex_two_columns =
     run ex_TOKEN_TYPE
       [AddColumn ''a'' ex_TinyInt ex_no_ColumnOptions,
        AddColumn ''b'' ex_TinyInt ex_no_ColumnOptions] ex_BulkLoad"

text \<open>
  The instance after \<open>addRow(7, 300)\<close> on it has failed: the row marker, the first
  column's two bytes and the second column's length byte stay in the row buffer.
\<close>

definition ex_after_failure :: BulkLoad where
  "ex_after_failure =
     ex_two_columns\<lparr>firstRowWritten := True,
       rowsData := \<lparr>initialSize = 1024, encoding = Some ''ucs2'', doubleSizeGrowth = True,
                     written = [0xD1, 1, 7, 1]\<rparr>\<rparr>"

text \<open>The options record \<open>{lockTable: true, fireTriggers: true}\<close>.\<close>

definition ex_lock_fire_Options :: Options where
  "ex_lock_fire_Options =
     \<lparr>opt_checkConstraints = JUndefined, opt_fireTriggers = JBool True,
      opt_keepNulls = JUndefined, opt_lockTable = JBool True\<rparr>"

text \<open>
  A row object \<open>{b: 2}\<close> with a prototype that holds the functions \<open>constructor\<close> and
  \<open>toString\<close>, an instance whose second column is named \<open>toString\<close>, and an instance
  whose second column was registered with \<open>nullable: false\<close>.
\<close>

definition ex_prototype :: "(string \<times> js_value) list" where
  "ex_prototype = [(''constructor'', JFunction 0), (''toString'', JFunction 1)]"

definition ex_row_object :: js_value where
  "ex_row_object = JObj [[(''b'', JNum 2)], ex_prototype]"

definition ex_named_columns :: BulkLoad where
  "ex_named_columns =
     run ex_TOKEN_TYPE
       [AddColumn ''b'' ex_TinyInt ex_no_ColumnOptions,
        AddColumn ''toString'' ex_TinyInt ex_no_ColumnOptions] ex_BulkLoad"

definition ex_not_null_columns :: BulkLoad where
  "ex_not_null_columns =
     run ex_TOKEN_TYPE
       [AddColumn ''a'' ex_TinyInt ex_no_ColumnOptions,
        AddColumn ''b'' ex_TinyInt (ex_no_ColumnOptions\<lparr>co_nullable := Some False\<rparr>)]
       ex_BulkLoad"

section \<open>Properties\<close>

subsection \<open>Facts about the buffer and the state\<close>

lemma writeUInt8_uint: "writeUInt8 (uint (w :: byte)) b = Inr (copyFrom [w] b)"
proof -
  have "uint w < 2 ^ 8" using uint_bounded [of w] by simp
  then show ?thesis by (simp add: writeUInt8_def)
qed

lemma writeUInt16LE_0: "writeUInt16LE 0 b = Inr (copyFrom [0, 0] b)"
  by (simp add: writeUInt16LE_def)

lemma writeUInt32LE_0: "writeUInt32LE 0 b = Inr (copyFrom [0, 0, 0, 0] b)"
  by (simp add: writeUInt32LE_def)

lemma copyFrom_copyFrom: "copyFrom ys (copyFrom xs b) = copyFrom (xs @ ys) b"
  by (simp add: copyFrom_def)

lemma done_token_eq:
  "done_token TT opts =
     Inr \<lparr>initialSize = (if js_lt (tdsVersion opts) ''7_2'' then 9 else 13),
          encoding = None, doubleSizeGrowth = False,
          written = [DONE TT, 0, 0, 0, 0, 0, 0, 0, 0]
                    @ (if js_lt (tdsVersion opts) ''7_2'' then [] else [0, 0, 0, 0])\<rparr>"
  by (simp add: done_token_def DONE_STATUS_FINAL_def writeUInt8_uint writeUInt16LE_0
      writeUInt32LE_0 bindE_def js_ge_def copyFrom_def new_WritableTrackingBuffer_def)

lemma addColumn_frozen:
  "firstRowWritten this \<Longrightarrow>
   addColumn name ty copts this =
     (Inl (Error ''Columns cannot be added to bulk insert after the first row has been written.''), this)"
  by (simp add: addColumn_def)

lemma addRow_eq:
  "addRow TT input this =
     (fst (write_columns (options this) (row_of input) 0 (columns this)
             (copyFrom [ROW TT] (rowsData this))),
      this\<lparr>firstRowWritten := True,
           rowsData := snd (write_columns (options this) (row_of input) 0 (columns this)
                              (copyFrom [ROW TT] (rowsData this)))\<rparr>)"
  by (simp add: addRow_def writeUInt8_uint Let_def split: prod.splits)

lemma addRow_latch: "firstRowWritten (snd (addRow TT input this))"
  by (simp add: addRow_eq)

lemma addColumn_latch: "firstRowWritten (snd (addColumn name ty copts this)) = firstRowWritten this"
  by (simp add: addColumn_def Let_def split: sum.splits)

lemma exec_latch: "firstRowWritten this \<Longrightarrow> firstRowWritten (exec TT c this)"
  by (cases c) (simp_all add: addColumn_latch addRow_latch setTimeout_def)

lemma run_latch: "firstRowWritten this \<Longrightarrow> firstRowWritten (run TT cs this)"
  by (induction cs arbitrary: this) (simp_all add: exec_latch)

lemma exec_options: "options (exec TT c this) = options this"
  by (cases c) (simp_all add: addColumn_def addRow_eq setTimeout_def Let_def split: sum.splits)

lemma run_options: "options (run TT cs this) = options this"
  by (induction cs arbitrary: this) (simp_all add: exec_options)

lemma exec_bulkOptions: "bulkOptions (exec TT c this) = bulkOptions this"
  by (cases c) (simp_all add: addColumn_def addRow_eq setTimeout_def Let_def split: sum.splits)

lemma run_bulkOptions: "bulkOptions (run TT cs this) = bulkOptions this"
  by (induction cs arbitrary: this) (simp_all add: exec_bulkOptions)

lemma exec_table: "table (exec TT c this) = table this"
  by (cases c) (simp_all add: addColumn_def addRow_eq setTimeout_def Let_def split: sum.splits)

lemma run_table: "table (run TT cs this) = table this"
  by (induction cs arbitrary: this) (simp_all add: exec_table)

lemma addColumn_rowsData: "rowsData (snd (addColumn name ty copts this)) = rowsData this"
  by (simp add: addColumn_def Let_def split: sum.splits)

lemma exec_rowsData: "is_AddRow c = False \<Longrightarrow> rowsData (exec TT c this) = rowsData this"
  by (cases c) (simp_all add: setTimeout_def addColumn_rowsData)

lemma run_rowsData:
  "\<forall>c \<in> set cs. is_AddRow c = False \<Longrightarrow> rowsData (run TT cs this) = rowsData this"
  by (induction cs arbitrary: this) (simp_all add: exec_rowsData)

lemma exec_columns:
  "is_AddColumn c = False \<Longrightarrow> columns (exec TT c this) = columns this"
  by (cases c) (simp_all add: setTimeout_def addRow_eq)

lemma run_columns:
  "\<forall>c \<in> set cs. is_AddColumn c = False \<Longrightarrow> columns (run TT cs this) = columns this"
  by (induction cs arbitrary: this) (simp_all add: exec_columns)

lemma getPayload_eq:
  "getPayload TT this =
     (case getColMetaData TT this of
        Inl e \<Rightarrow> Inl e
      | Inr md \<Rightarrow>
          Inr \<lparr>initialSize = length md + length (data (rowsData this))
                               + (if js_lt (tdsVersion (options this)) ''7_2'' then 9 else 13),
               encoding = None, doubleSizeGrowth = False,
               written = md @ data (rowsData this)
                         @ [DONE TT, 0, 0, 0, 0, 0, 0, 0, 0]
                         @ (if js_lt (tdsVersion (options this)) ''7_2'' then []
                            else [0, 0, 0, 0])\<rparr>)"
  by (simp add: getPayload_def done_token_eq bindE_def data_def copyFrom_def
      new_WritableTrackingBuffer_def Let_def split: sum.splits)

lemma getColMetaData_cong:
  "columns a = columns b \<Longrightarrow> options a = options b \<Longrightarrow>
   getColMetaData TT a = getColMetaData TT b"
  by (simp add: getColMetaData_def)

lemma getPayload_cong:
  "columns a = columns b \<Longrightarrow> options a = options b \<Longrightarrow> rowsData a = rowsData b \<Longrightarrow>
   getPayload TT a = getPayload TT b"
  by (simp add: getPayload_def getColMetaData_def)

lemma the_bool_eq: "v = JUndefined \<or> typeof v = ''boolean'' \<Longrightarrow>
  the_bool (default_to v (JBool False)) = (v = JBool True)
  \<and> typeof (default_to v (JBool False)) = ''boolean''"
  by (cases v) (simp_all add: default_to_def)

lemma not_boolean: "v \<noteq> JUndefined \<Longrightarrow> typeof v \<noteq> ''boolean'' \<Longrightarrow>
  typeof (default_to v (JBool False)) \<noteq> ''boolean''"
  by (simp add: default_to_def)

lemma bulk_insert_columns_prefix:
  "bulk_insert_columns i cs sql = Inr r \<Longrightarrow> \<exists>cols. r = sql @ cols"
proof (induction cs arbitrary: i sql)
  case Nil
  then show ?case by simp
next
  case (Cons c cs)
  then obtain d where d: "type_declaration (col_type c) (column_fields.truncate c) = Inr d"
    by (cases "type_declaration (col_type c) (column_fields.truncate c)")
      (simp_all add: bindE_def)
  with Cons.prems have "bulk_insert_columns (Suc i) cs
      ((if i = 0 then sql else sql @ '', '') @ ''['' @ col_name c @ ''] '' @ d) = Inr r"
    by (simp add: bindE_def)
  then obtain cols where "r = ((if i = 0 then sql else sql @ '', '') @ ''['' @ col_name c @ ''] '' @ d) @ cols"
    using Cons.IH by blast
  then show ?case by (cases "i = 0") simp_all
qed

lemma getBulkInsertSql_shape:
  "getBulkInsertSql this = Inr sql \<Longrightarrow>
   \<exists>cols. sql = ''insert bulk '' @ table this @ ''('' @ cols @ '')'' @ getOptionsSql this"
proof -
  assume a: "getBulkInsertSql this = Inr sql"
  then obtain r where r: "bulk_insert_columns 0 (columns this) (''insert bulk '' @ table this @ ''('') = Inr r"
    by (cases "bulk_insert_columns 0 (columns this) (''insert bulk '' @ table this @ ''('')")
      (simp_all add: getBulkInsertSql_def bindE_def)
  then obtain cols where "r = (''insert bulk '' @ table this @ ''('') @ cols"
    using bulk_insert_columns_prefix by blast
  moreover have "sql = r @ '')'' @ getOptionsSql this"
    using a r by (simp add: getBulkInsertSql_def bindE_def)
  ultimately show ?thesis by simp
qed

lemma constructor_fields:
  "constructor tbl co opts = Inr b \<Longrightarrow> table b = tbl \<and> options b = co"
  by (auto simp: constructor_def Let_def split: if_splits)

lemma column_flags_value:
  "column_flags opts c =
     (if col_nullable c = Some True then 5
      else if col_nullable c = None \<and> js_ge (tdsVersion opts) ''7_2'' then 0x8004
      else 4)"
  by (simp add: column_flags_def FLAGS_updateableReadWrite_def FLAGS_nullable_def
      FLAGS_nullableUnknown_def)

lemma FLAGS_values:
  "FLAGS_nullable = 1" "FLAGS_updateableReadWrite = 4" "FLAGS_nullableUnknown = 0x8000"
  by (simp_all add: FLAGS_updateableReadWrite_def FLAGS_nullable_def FLAGS_nullableUnknown_def)

lemma resolve_length_keeps:
  "resolve_length c = Inr c' \<Longrightarrow> col_nullable c' = col_nullable c \<and> col_name c' = col_name c"
  by (auto simp: resolve_length_def bindE_def split: if_splits option.splits sum.splits)

lemma resolve_precision_keeps:
  "resolve_precision c = Inr c' \<Longrightarrow> col_nullable c' = col_nullable c \<and> col_name c' = col_name c"
  by (auto simp: resolve_precision_def bindE_def split: if_splits option.splits sum.splits)

lemma resolve_scale_keeps:
  "resolve_scale c = Inr c' \<Longrightarrow> col_nullable c' = col_nullable c \<and> col_name c' = col_name c"
  by (auto simp: resolve_scale_def bindE_def split: if_splits option.splits sum.splits)

lemma addColumn_Inr:
  assumes "addColumn name ty copts this = (Inr (), this')"
  shows "\<exists>c. columns this' = columns this @ [c]
    \<and> col_nullable c = Some (case co_nullable copts of None \<Rightarrow> True | Some b \<Rightarrow> b)
    \<and> col_name c = name"
proof -
  let ?column = "\<lparr>col_name = name,
               col_value = JNull,
               col_output = (case co_output copts of None \<Rightarrow> False | Some b \<Rightarrow> b),
               col_length = co_length copts,
               col_precision = co_precision copts,
               col_scale = co_scale copts,
               col_objName = (case co_objName copts of None \<Rightarrow> name | Some n \<Rightarrow> n),
               col_nullable = Some (case co_nullable copts of None \<Rightarrow> True | Some b \<Rightarrow> b),
               col_type = ty\<rparr>"
  from assms have nf: "\<not> firstRowWritten this"
    by (auto simp: addColumn_def)
  from assms nf obtain c3 where
    r: "bindE (resolve_length ?column) (\<lambda>c1. bindE (resolve_precision c1) resolve_scale) = Inr c3"
    and s: "this' = this\<lparr>columns := columns this @ [c3],
                     columnsByName := (columnsByName this)(name \<mapsto> c3)\<rparr>"
    by (auto simp: addColumn_def Let_def split: sum.splits)
  from r obtain c1 where c1: "resolve_length ?column = Inr c1"
    and r2: "bindE (resolve_precision c1) resolve_scale = Inr c3"
    by (cases "resolve_length ?column") (simp_all add: bindE_def)
  from r2 obtain c2 where c2: "resolve_precision c1 = Inr c2" and c3: "resolve_scale c2 = Inr c3"
    by (cases "resolve_precision c1") (simp_all add: bindE_def)
  have "col_nullable c3 = col_nullable ?column \<and> col_name c3 = col_name ?column"
    using resolve_length_keeps [OF c1] resolve_precision_keeps [OF c2] resolve_scale_keeps [OF c3]
    by simp
  then show ?thesis using s by simp
qed

lemma write_columns_meta_Cons:
  "write_columns_meta opts (c # cs) buf =
     (case writeTypeInfo (col_type c) (column_fields.truncate c) opts of
        (bs, Some e) \<Rightarrow> Inl e
      | (bs, None) \<Rightarrow>
          bindE (writeBVarchar (col_name c)
                   (copyFrom ((if js_lt (tdsVersion opts) ''7_2'' then [0, 0] else [0, 0, 0, 0])
                      @ [of_int (column_flags opts c), of_int (column_flags opts c div 2 ^ 8)]
                      @ bs) buf))
            (write_columns_meta opts cs))"
proof -
  have fl: "0 \<le> column_flags opts c \<and> column_flags opts c < 2 ^ 16"
    by (simp add: column_flags_value)
  then have w: "writeUInt16LE (column_flags opts c) b =
      Inr (copyFrom [of_int (column_flags opts c), of_int (column_flags opts c div 2 ^ 8)] b)"
    for b
    by (simp add: writeUInt16LE_def)
  show ?thesis
    by (simp add: w writeUInt16LE_0 writeUInt32LE_0 bindE_def copyFrom_copyFrom
        split: prod.splits option.splits)
qed

lemma copyFrom_Nil: "copyFrom [] buf = buf"
  by (simp add: copyFrom_def)

lemma write_columns_spec:
  "write_columns opts row i cs buf =
     (case spec_encode_columns opts (value_at row) i cs of
        (bs, r) \<Rightarrow> ((case r of None \<Rightarrow> Inr () | Some e \<Rightarrow> Inl e), copyFrom bs buf))"
proof (induction cs arbitrary: i buf)
  case Nil
  then show ?case by (simp add: copyFrom_Nil)
next
  case (Cons c cs)
  obtain bs r where w: "encoder_call opts c (value_at row i c) = (bs, r)"
    by (cases "encoder_call opts c (value_at row i c)") auto
  then have w': "writeParameterData (col_type c)
             \<lparr>p_length = col_length c, p_scale = col_scale c,
              p_precision = col_precision c, p_value = value_at row i c\<rparr> opts = (bs, r)"
    by (simp add: encoder_call_def)
  show ?case
  proof (cases r)
    case None
    then show ?thesis
      using w w' Cons.IH [of "Suc i" "copyFrom bs buf"]
      by (simp add: copyFrom_copyFrom split: prod.splits)
  next
    case (Some e)
    then show ?thesis using w w' by simp
  qed
qed

lemma addRow_spec: "addRow TT input this = spec_append_row TT (value_at (row_of input)) this"
  by (simp add: addRow_eq write_columns_spec spec_append_row_def copyFrom_copyFrom
      split: prod.splits)

lemma spec_encode_columns_fails:
  "spec_encode_columns opts V i cs = (bs, Some e) \<Longrightarrow>
   \<exists>k<length cs.
      (\<forall>j<k. snd (encoder_call opts (cs ! j) (V (i + j) (cs ! j))) = None)
      \<and> snd (encoder_call opts (cs ! k) (V (i + k) (cs ! k))) = Some e
      \<and> bs = concat (map (\<lambda>j. fst (encoder_call opts (cs ! j) (V (i + j) (cs ! j)))) [0..<Suc k])"
proof (induction cs arbitrary: i bs)
  case Nil
  then show ?case by simp
next
  case (Cons c cs)
  obtain b r where w: "encoder_call opts c (V i c) = (b, r)"
    by (cases "encoder_call opts c (V i c)") auto
  show ?case
  proof (cases r)
    case (Some e')
    with Cons.prems w have "e' = e" "bs = b" by simp_all
    with w Some have "snd (encoder_call opts ((c # cs) ! 0) (V (i + 0) ((c # cs) ! 0))) = Some e
      \<and> bs = concat (map (\<lambda>j. fst (encoder_call opts ((c # cs) ! j) (V (i + j) ((c # cs) ! j)))) [0..<Suc 0])"
      by simp
    then show ?thesis by (intro exI [of _ 0]) simp
  next
    case None
    obtain rest where rest: "spec_encode_columns opts V (Suc i) cs = (rest, Some e)"
      and bs: "bs = b @ rest"
      using Cons.prems w None by (auto split: prod.splits)
    from Cons.IH [OF rest] obtain k where k: "k < length cs"
      and a: "\<forall>j<k. snd (encoder_call opts (cs ! j) (V (Suc i + j) (cs ! j))) = None"
      and f: "snd (encoder_call opts (cs ! k) (V (Suc i + k) (cs ! k))) = Some e"
      and r: "rest = concat (map (\<lambda>j. fst (encoder_call opts (cs ! j) (V (Suc i + j) (cs ! j)))) [0..<Suc k])"
      by blast
    have 1: "Suc k < length (c # cs)" using k by simp
    have 2: "\<forall>j<Suc k. snd (encoder_call opts ((c # cs) ! j) (V (i + j) ((c # cs) ! j))) = None"
    proof (intro allI impI)
      fix j assume "j < Suc k"
      then show "snd (encoder_call opts ((c # cs) ! j) (V (i + j) ((c # cs) ! j))) = None"
        using a w None by (cases j) simp_all
    qed
    have 3: "snd (encoder_call opts ((c # cs) ! Suc k) (V (i + Suc k) ((c # cs) ! Suc k))) = Some e"
      using f by simp
    have "map (\<lambda>j. fst (encoder_call opts ((c # cs) ! j) (V (i + j) ((c # cs) ! j)))) [0..<Suc (Suc k)]
       = b # map (\<lambda>j. fst (encoder_call opts (cs ! j) (V (Suc i + j) (cs ! j)))) [0..<Suc k]"
      using w by (simp only: upt_conv_Cons [of 0 "Suc (Suc k)"] map_Suc_upt [symmetric])
        (simp add: comp_def del: upt_Suc)
    then have "concat (map (\<lambda>j. fst (encoder_call opts ((c # cs) ! j) (V (i + j) ((c # cs) ! j)))) [0..<Suc (Suc k)])
       = b @ concat (map (\<lambda>j. fst (encoder_call opts (cs ! j) (V (Suc i + j) (cs ! j)))) [0..<Suc k])"
      by (simp only: concat.simps)
    then have 4: "bs = concat (map (\<lambda>j. fst (encoder_call opts ((c # cs) ! j) (V (i + j) ((c # cs) ! j)))) [0..<Suc (Suc k)])"
      using bs r by (simp only:)
    from 1 2 3 4 show ?thesis by blast
  qed
qed

lemma value_at_falsy:
  "\<not> truthy v \<Longrightarrow> value_at (row_of [v]) = (\<lambda>i c. if i = 0 then v else JUndefined)"
  by (intro ext) (simp add: row_of_def value_at_def js_index_def)

lemma value_at_array: "value_at (row_of [JArr xs]) = (\<lambda>i c. js_index xs i)"
  by (intro ext) (simp add: row_of_def value_at_def js_index_def)

lemma value_at_object:
  "value_at (row_of [JObj chain]) = (\<lambda>i c. chain_lookup chain (col_objName c))"
  by (intro ext) (simp add: row_of_def value_at_def js_index_def)

lemma value_at_positional:
  assumes "\<forall>chain. input \<noteq> [JObj chain]" and "\<forall>xs. input \<noteq> [JArr xs]"
  shows "value_at (row_of input) = (\<lambda>i c. js_index input i)"
proof -
  have "row_of input = JArr input"
  proof (cases input)
    case Nil
    then show ?thesis by (simp add: row_of_def js_index_def)
  next
    case (Cons v vs)
    show ?thesis
    proof (cases vs)
      case Nil
      then show ?thesis using Cons assms by (cases v) (simp_all add: row_of_def js_index_def)
    next
      case (Cons w ws)
      then show ?thesis using \<open>input = v # vs\<close> by (simp add: row_of_def)
    qed
  qed
  then show ?thesis by (intro ext) (simp add: value_at_def)
qed

lemma write_columns_meta_bytes:
  "write_columns_meta opts cs buf = Inr buf' \<Longrightarrow>
   data buf' = data buf @
     concat (map (\<lambda>c. (if js_lt (tdsVersion opts) ''7_2'' then [0, 0] else [0, 0, 0, 0])
                       @ [of_int (column_flags opts c), of_int (column_flags opts c div 2 ^ 8)]
                       @ fst (writeTypeInfo (col_type c) (column_fields.truncate c) opts)
                       @ of_nat (length (col_name c)) # ucs2 (col_name c)) cs)"
proof (induction cs arbitrary: buf)
  case Nil
  then show ?case by simp
next
  case (Cons c cs)
  obtain bs r where w: "writeTypeInfo (col_type c) (column_fields.truncate c) opts = (bs, r)"
    by (cases "writeTypeInfo (col_type c) (column_fields.truncate c) opts") auto
  note a = Cons.prems [unfolded write_columns_meta_Cons]
  with w have r: "r = None"
    by (cases r) simp_all
  let ?pre = "(if js_lt (tdsVersion opts) ''7_2'' then [0, 0] else [0, 0, 0, 0])
      @ [of_int (column_flags opts c), of_int (column_flags opts c div 2 ^ 8)] @ bs"
  from a w r obtain b3 where b3: "writeBVarchar (col_name c) (copyFrom ?pre buf) = Inr b3"
    and rest: "write_columns_meta opts cs b3 = Inr buf'"
    by (cases "writeBVarchar (col_name c) (copyFrom ?pre buf)") (simp_all add: bindE_def)
  from b3 have "data b3 = data buf @ ?pre @ of_nat (length (col_name c)) # ucs2 (col_name c)"
    by (auto simp: writeBVarchar_def bindE_def writeUInt8_def copyFrom_def data_def
        split: if_splits)
  with Cons.IH [OF rest] w show ?case by simp
qed

lemma getColMetaData_bytes:
  "getColMetaData TT this = Inr md \<Longrightarrow>
   md = [COLMETADATA TT, of_nat (length (columns this)), of_nat (length (columns this) div 256)] @
     concat (map (\<lambda>c. (if js_lt (tdsVersion (options this)) ''7_2'' then [0, 0] else [0, 0, 0, 0])
                       @ [of_int (column_flags (options this) c),
                          of_int (column_flags (options this) c div 2 ^ 8)]
                       @ fst (writeTypeInfo (col_type c) (column_fields.truncate c) (options this))
                       @ of_nat (length (col_name c)) # ucs2 (col_name c)) (columns this))"
proof -
  assume a: "getColMetaData TT this = Inr md"
  let ?b1 = "copyFrom [COLMETADATA TT] (new_WritableTrackingBuffer 100 None True)"
  from a obtain b2 where b2: "writeUInt16LE (int (length (columns this))) ?b1 = Inr b2"
    and r: "bindE (write_columns_meta (options this) (columns this) b2) (\<lambda>tBuf. Inr (data tBuf)) = Inr md"
    by (cases "writeUInt16LE (int (length (columns this))) ?b1")
      (simp_all add: getColMetaData_def writeUInt8_uint bindE_def)
  from r obtain buf' where m: "write_columns_meta (options this) (columns this) b2 = Inr buf'"
    and md: "md = data buf'"
    by (cases "write_columns_meta (options this) (columns this) b2") (auto simp: bindE_def)
  have "int (length (columns this)) div 2 ^ 8 = int (length (columns this) div 256)"
    by (simp add: zdiv_int)
  with b2 have "data b2 = [COLMETADATA TT, of_nat (length (columns this)),
      of_nat (length (columns this) div 256)]"
    by (auto simp: writeUInt16LE_def copyFrom_def data_def new_WritableTrackingBuffer_def
        split: if_splits)
  with write_columns_meta_bytes [OF m] md show ?thesis by simp
qed

lemma addColumn_Inl: "addColumn name ty copts this = (Inl e, this') \<Longrightarrow> this' = this"
  by (auto simp: addColumn_def Let_def split: if_splits sum.splits)

lemma addColumn_nullable_inv:
  assumes "\<forall>c \<in> set (columns this). col_nullable c = Some True \<or> col_nullable c = Some False"
  shows "\<forall>c \<in> set (columns (snd (addColumn name ty copts this))).
           col_nullable c = Some True \<or> col_nullable c = Some False"
proof (cases "addColumn name ty copts this")
  case (Pair r this')
  show ?thesis
  proof (cases r)
    case (Inl e)
    with Pair assms show ?thesis using addColumn_Inl [of name ty copts this e this'] by simp
  next
    case (Inr u)
    with Pair have "addColumn name ty copts this = (Inr (), this')" by simp
    from addColumn_Inr [OF this] obtain c where "columns this' = columns this @ [c]"
      and "col_nullable c = Some (case co_nullable copts of None \<Rightarrow> True | Some b \<Rightarrow> b)"
      by blast
    with Pair assms show ?thesis by auto
  qed
qed

lemma exec_nullable_inv:
  "\<forall>c \<in> set (columns this). col_nullable c = Some True \<or> col_nullable c = Some False \<Longrightarrow>
   \<forall>c \<in> set (columns (exec TT call this)). col_nullable c = Some True \<or> col_nullable c = Some False"
  by (cases call) (simp_all add: addColumn_nullable_inv addRow_eq setTimeout_def)

lemma run_nullable_inv:
  "\<forall>c \<in> set (columns this). col_nullable c = Some True \<or> col_nullable c = Some False \<Longrightarrow>
   \<forall>c \<in> set (columns (run TT cs this)). col_nullable c = Some True \<or> col_nullable c = Some False"
proof (induction cs arbitrary: this)
  case Nil
  then show ?case by simp
next
  case (Cons call cs)
  from Cons.IH [OF exec_nullable_inv [OF Cons.prems]] show ?case by simp
qed

lemma addColumn_columns_prefix:
  "\<exists>more. columns (snd (addColumn name ty copts this)) = columns this @ more"
  by (auto simp: addColumn_def Let_def split: sum.splits)

lemma exec_columns_prefix: "\<exists>more. columns (exec TT call this) = columns this @ more"
  by (cases call) (simp_all add: addColumn_columns_prefix addRow_eq setTimeout_def)

lemma run_columns_prefix: "\<exists>more. columns (run TT cs this) = columns this @ more"
proof (induction cs arbitrary: this)
  case Nil
  then show ?case by simp
next
  case (Cons call cs)
  obtain m1 where "columns (exec TT call this) = columns this @ m1"
    using exec_columns_prefix by blast
  moreover obtain m2 where "columns (run TT cs (exec TT call this)) = columns (exec TT call this) @ m2"
    using Cons.IH by blast
  ultimately show ?case by simp
qed

subsection \<open>The sample inputs evaluated\<close>

lemma ex_TinyInt_sel:
  "type_id ex_TinyInt = 0x30"
  "hasPrecision ex_TinyInt = False"
  "hasScale ex_TinyInt = False"
  by (simp_all add: ex_TinyInt_def)

lemma ex_addColumn:
  "\<not> firstRowWritten this \<Longrightarrow>
   addColumn name ex_TinyInt ex_no_ColumnOptions this =
     (Inr (), this\<lparr>columns := columns this @ [ex_column name],
                  columnsByName := (columnsByName this)(name \<mapsto> ex_column name)\<rparr>)"
  by (simp add: addColumn_def ex_no_ColumnOptions_def ex_TinyInt_sel ex_column_def
      resolve_length_def resolve_precision_def resolve_scale_def bindE_def Let_def)

lemma ex_two_columns_fields:
  "columns ex_two_columns = [ex_column ''a'', ex_column ''b'']"
  "options ex_two_columns = ex_tds_7_4"
  "rowsData ex_two_columns = new_WritableTrackingBuffer 1024 (Some ''ucs2'') True"
  "firstRowWritten ex_two_columns = False"
  "table ex_two_columns = ''t''"
  by (simp_all add: ex_two_columns_def ex_addColumn ex_BulkLoad_def)

lemma ex_writeParameterData:
  "writeParameterData (col_type (ex_column name)) p opts =
     (case p_value p of
        JNum n \<Rightarrow>
          (if 0 \<le> n \<and> n < 256 then ([1, of_int n], None)
           else ([1], Some (RangeError ''value is out of range'')))
      | _ \<Rightarrow> ([0], None))"
  by (simp add: ex_column_def ex_TinyInt_def)

lemma ex_addRow_fails:
  "addRow ex_TOKEN_TYPE [JNum 7, JNum 300] ex_two_columns =
     (Inl (RangeError ''value is out of range''), ex_after_failure)"
  by (simp add: ex_after_failure_def addRow_eq ex_two_columns_fields ex_writeParameterData row_of_def value_at_def
      js_index_def copyFrom_def new_WritableTrackingBuffer_def ex_TOKEN_TYPE_def)

lemma ex_after_failure_fields:
  "columns ex_after_failure = [ex_column ''a'', ex_column ''b'']"
  "options ex_after_failure = ex_tds_7_4"
  "rowsData ex_after_failure =
     \<lparr>initialSize = 1024, encoding = Some ''ucs2'', doubleSizeGrowth = True,
      written = [0xD1, 1, 7, 1]\<rparr>"
  "firstRowWritten ex_after_failure = True"
  by (simp_all add: ex_after_failure_def ex_two_columns_fields)

lemma ex_addRow_succeeds:
  "addRow ex_TOKEN_TYPE [JNum 1, JNum 2] ex_after_failure =
     (Inr (),
      ex_after_failure\<lparr>firstRowWritten := True,
        rowsData := \<lparr>initialSize = 1024, encoding = Some ''ucs2'', doubleSizeGrowth = True,
                      written = [0xD1, 1, 7, 1, 0xD1, 1, 1, 1, 2]\<rparr>\<rparr>)"
  by (simp add: addRow_eq ex_after_failure_fields ex_writeParameterData row_of_def value_at_def
      js_index_def copyFrom_def ex_TOKEN_TYPE_def)

lemma ex_writeTypeInfo:
  "writeTypeInfo (col_type (ex_column name)) c opts = ([0x26, 1], None)"
  by (simp add: ex_column_def ex_TinyInt_def)

lemma ex_column_sel:
  "col_name (ex_column name) = name"
  "col_nullable (ex_column name) = Some True"
  by (simp_all add: ex_column_def)

lemma ex_column_flags: "column_flags opts (ex_column name) = 5"
  by (simp add: column_flags_def ex_column_sel FLAGS_updateableReadWrite_def FLAGS_nullable_def)

lemma ex_getColMetaData:
  "columns this = [ex_column ''a'', ex_column ''b''] \<Longrightarrow> options this = ex_tds_7_4 \<Longrightarrow>
   getColMetaData ex_TOKEN_TYPE this =
     Inr [0x81, 2, 0, 0, 0, 0, 0, 5, 0, 0x26, 1, 1, 0x61, 0,
                      0, 0, 0, 0, 5, 0, 0x26, 1, 1, 0x62, 0]"
  by (simp add: getColMetaData_def writeUInt8_uint bindE_def writeUInt16LE_def
      writeUInt32LE_def writeUInt8_def writeBVarchar_def ucs2_def ex_writeTypeInfo
      ex_column_sel ex_column_flags copyFrom_def new_WritableTrackingBuffer_def data_def
      ex_TOKEN_TYPE_def ex_tds_7_4_def)

lemma ex_BulkLoad_constructed: "constructor ''t'' ex_tds_7_4 ex_no_Options = Inr ex_BulkLoad"
  by (simp add: constructor_def ex_no_Options_def default_to_def ex_BulkLoad_def)

lemma ex_BulkLoad_fields:
  "columns ex_BulkLoad = []"
  "options ex_BulkLoad = ex_tds_7_4"
  "firstRowWritten ex_BulkLoad = False"
  "data (rowsData ex_BulkLoad) = []"
  by (simp_all add: ex_BulkLoad_def data_def new_WritableTrackingBuffer_def)

lemma ex_addColumn_Unsupported:
  "addColumn ''a'' ex_Unsupported ex_no_ColumnOptions ex_BulkLoad =
     (Inr (), ex_BulkLoad\<lparr>columns := [(ex_column ''a'')\<lparr>col_type := ex_Unsupported\<rparr>],
        columnsByName := [''a'' \<mapsto> (ex_column ''a'')\<lparr>col_type := ex_Unsupported\<rparr>]\<rparr>)"
  by (simp add: addColumn_def ex_no_ColumnOptions_def ex_Unsupported_def ex_TinyInt_sel
      ex_column_def resolve_length_def resolve_precision_def resolve_scale_def bindE_def
      Let_def ex_BulkLoad_def)

lemma constructor_rowsData:
  "constructor tbl co opts = Inr b \<Longrightarrow> data (rowsData b) = [] \<and> columns b = []
     \<and> firstRowWritten b = False"
  by (auto simp: constructor_def Let_def data_def new_WritableTrackingBuffer_def
      split: if_splits)

lemma ex_lock_fire_constructed:
  "constructor ''t'' ex_tds_7_4 ex_lock_fire_Options =
     Inr (ex_BulkLoad\<lparr>bulkOptions :=
            \<lparr>checkConstraints = False, fireTriggers = True, keepNulls = False,
             lockTable = True\<rparr>\<rparr>)"
  by (simp add: constructor_def ex_lock_fire_Options_def default_to_def ex_BulkLoad_def)

lemma ex_type_declaration:
  "type_declaration (col_type (ex_column name)) cf = Inr ''tinyint''"
  by (simp add: ex_column_def ex_TinyInt_def)

lemma ex_getBulkInsertSql:
  "columns this = [ex_column ''a'', ex_column ''b''] \<Longrightarrow> table this = ''t'' \<Longrightarrow>
   getBulkInsertSql this =
     Inr (''insert bulk t([a] tinyint, [b] tinyint)'' @ getOptionsSql this)"
  by (simp add: getBulkInsertSql_def bindE_def ex_type_declaration ex_column_sel)

lemma ex_encoder_call:
  "encoder_call opts (ex_column name) v =
     (case v of
        JNum n \<Rightarrow>
          (if 0 \<le> n \<and> n < 256 then ([1, of_int n], None)
           else ([1], Some (RangeError ''value is out of range'')))
      | _ \<Rightarrow> ([0], None))"
  by (simp add: encoder_call_def ex_writeParameterData)

lemma ex_named_columns_fields:
  "columns ex_named_columns = [ex_column ''b'', ex_column ''toString'']"
  "options ex_named_columns = ex_tds_7_4"
  "rowsData ex_named_columns = new_WritableTrackingBuffer 1024 (Some ''ucs2'') True"
  by (simp_all add: ex_named_columns_def ex_addColumn ex_BulkLoad_def)

lemma ex_column_objName: "col_objName (ex_column name) = name"
  by (simp add: ex_column_def)

lemma ex_addColumn_not_null:
  "\<not> firstRowWritten this \<Longrightarrow>
   addColumn name ex_TinyInt (ex_no_ColumnOptions\<lparr>co_nullable := Some False\<rparr>) this =
     (Inr (), this\<lparr>columns := columns this @ [(ex_column name)\<lparr>col_nullable := Some False\<rparr>],
                  columnsByName := (columnsByName this)
                    (name \<mapsto> (ex_column name)\<lparr>col_nullable := Some False\<rparr>)\<rparr>)"
  by (simp add: addColumn_def ex_no_ColumnOptions_def ex_TinyInt_sel ex_column_def
      resolve_length_def resolve_precision_def resolve_scale_def bindE_def Let_def)

lemma ex_not_null_columns_fields:
  "columns ex_not_null_columns =
     [ex_column ''a'', (ex_column ''b'')\<lparr>col_nullable := Some False\<rparr>]"
  "options ex_not_null_columns = ex_tds_7_4"
  by (simp_all add: ex_not_null_columns_def ex_addColumn ex_addColumn_not_null ex_BulkLoad_def)

lemma ex_not_null_getColMetaData:
  "getColMetaData ex_TOKEN_TYPE ex_not_null_columns =
     Inr [0x81, 2, 0, 0, 0, 0, 0, 5, 0, 0x26, 1, 1, 0x61, 0,
                      0, 0, 0, 0, 4, 0, 0x26, 1, 1, 0x62, 0]"
proof -
  have w: "writeTypeInfo (col_type ((ex_column ''b'')\<lparr>col_nullable := Some False\<rparr>)) cf opts =
      ([0x26, 1], None)" for cf opts
    by (simp add: ex_column_def ex_TinyInt_def)
  have f: "column_flags opts ((ex_column ''b'')\<lparr>col_nullable := Some False\<rparr>) = 4" for opts
    by (simp add: column_flags_value)
  have n: "col_name ((ex_column ''b'')\<lparr>col_nullable := Some False\<rparr>) = ''b''"
    by (simp add: ex_column_def)
  show ?thesis
    unfolding getColMetaData_def ex_not_null_columns_fields
    by (simp add: writeUInt8_uint bindE_def writeUInt16LE_def
        writeUInt32LE_def writeUInt8_def writeBVarchar_def ucs2_def ex_writeTypeInfo
        ex_column_sel ex_column_flags copyFrom_def new_WritableTrackingBuffer_def data_def
        ex_TOKEN_TYPE_def ex_tds_7_4_def w f n)
qed

subsection \<open>The completion token\<close>

text \<open>
  C4. For every protocol version the DONE token built by \<open>getPayload\<close> is the marker
  byte, the 2-byte status \<open>DONE_STATUS.FINAL\<close> (zero), the 2-byte current-command field
  (zero) and the row count (zero): 4 bytes, 9 bytes in all, when the version is below
  \<open>'7_2'\<close>, and two 4-byte halves, 13 bytes in all, otherwise. Its buffer is allocated at
  that size. The token depends on the protocol version only, which no call changes, so
  it is the same however many rows were appended.
\<close>

theorem done_token_layout:
  "done_token TT opts =
     Inr \<lparr>initialSize = (if js_lt (tdsVersion opts) ''7_2'' then 9 else 13),
          encoding = None, doubleSizeGrowth = False,
          written = [DONE TT] @ [of_int DONE_STATUS_FINAL, of_int (DONE_STATUS_FINAL div 2 ^ 8)]
                    @ [0, 0]
                    @ (if js_lt (tdsVersion opts) ''7_2'' then [0, 0, 0, 0]
                       else [0, 0, 0, 0] @ [0, 0, 0, 0])\<rparr>
   \<and> DONE_STATUS_FINAL = 0
   \<and> (\<exists>tok. done_token TT opts = Inr tok
          \<and> length (data tok) = (if js_lt (tdsVersion opts) ''7_2'' then 9 else 13)
          \<and> initialSize tok = length (data tok))
   \<and> done_token TT (options (run TT cs this)) = done_token TT (options this)"
  by (simp add: done_token_eq DONE_STATUS_FINAL_def data_def run_options)

theorem done_token_layout_witness:
  "done_token ex_TOKEN_TYPE ex_tds_7_1 =
     Inr \<lparr>initialSize = 9, encoding = None, doubleSizeGrowth = False,
          written = [0xFD, 0, 0, 0, 0, 0, 0, 0, 0]\<rparr>
   \<and> done_token ex_TOKEN_TYPE ex_tds_7_4 =
     Inr \<lparr>initialSize = 13, encoding = None, doubleSizeGrowth = False,
          written = [0xFD, 0, 0, 0, 0, 0, 0, 0, 0, 0, 0, 0, 0]\<rparr>"
  using done_token_layout [of ex_TOKEN_TYPE ex_tds_7_1 "[]" ex_BulkLoad]
    done_token_layout [of ex_TOKEN_TYPE ex_tds_7_4 "[]" ex_BulkLoad]
  by (simp add: ex_TOKEN_TYPE_def ex_tds_7_1_def ex_tds_7_4_def DONE_STATUS_FINAL_def)

subsection \<open>A row that fails while it is encoded\<close>

text \<open>
  C2, the claim as stated, fails. With two one-byte columns, \<open>addRow(7, 300)\<close> throws in
  the second column's encoder after the row marker, the first column's bytes and the
  second column's length byte have been appended. The instance does not refuse to
  continue: \<open>addRow(1, 2)\<close> then succeeds, and the row buffer and the payload built from
  it hold the four bytes of the partial row in front of the complete row.
\<close>

theorem partial_row_observed_counterexample:
  "addRow ex_TOKEN_TYPE [JNum 7, JNum 300] ex_two_columns =
     (Inl (RangeError ''value is out of range''), ex_after_failure)
   \<and> data (rowsData ex_after_failure) = [0xD1, 1, 7, 1]
   \<and> fst (addRow ex_TOKEN_TYPE [JNum 1, JNum 2] ex_after_failure) = Inr ()
   \<and> data (rowsData (snd (addRow ex_TOKEN_TYPE [JNum 1, JNum 2] ex_after_failure))) =
       [0xD1, 1, 7, 1, 0xD1, 1, 1, 1, 2]
   \<and> getPayload ex_TOKEN_TYPE (snd (addRow ex_TOKEN_TYPE [JNum 1, JNum 2] ex_after_failure)) =
       Inr \<lparr>initialSize = 47, encoding = None, doubleSizeGrowth = False,
            written = [0x81, 2, 0, 0, 0, 0, 0, 5, 0, 0x26, 1, 1, 0x61, 0,
                                0, 0, 0, 0, 5, 0, 0x26, 1, 1, 0x62, 0]
                      @ [0xD1, 1, 7, 1, 0xD1, 1, 1, 1, 2]
                      @ [0xFD, 0, 0, 0, 0, 0, 0, 0, 0, 0, 0, 0, 0]\<rparr>"
proof -
  let ?s = "snd (addRow ex_TOKEN_TYPE [JNum 1, JNum 2] ex_after_failure)"
  have fields: "columns ?s = [ex_column ''a'', ex_column ''b'']" "options ?s = ex_tds_7_4"
    "data (rowsData ?s) = [0xD1, 1, 7, 1, 0xD1, 1, 1, 1, 2]"
    by (simp_all add: ex_addRow_succeeds ex_after_failure_fields data_def)
  have md: "getColMetaData ex_TOKEN_TYPE ?s =
     Inr [0x81, 2, 0, 0, 0, 0, 0, 5, 0, 0x26, 1, 1, 0x61, 0,
                      0, 0, 0, 0, 5, 0, 0x26, 1, 1, 0x62, 0]"
    by (rule ex_getColMetaData) (rule fields)+
  have "DONE ex_TOKEN_TYPE = 0xFD" by (simp add: ex_TOKEN_TYPE_def)
  then have payload: "getPayload ex_TOKEN_TYPE ?s =
       Inr \<lparr>initialSize = 47, encoding = None, doubleSizeGrowth = False,
            written = [0x81, 2, 0, 0, 0, 0, 0, 5, 0, 0x26, 1, 1, 0x61, 0,
                                0, 0, 0, 0, 5, 0, 0x26, 1, 1, 0x62, 0]
                      @ [0xD1, 1, 7, 1, 0xD1, 1, 1, 1, 2]
                      @ [0xFD, 0, 0, 0, 0, 0, 0, 0, 0, 0, 0, 0, 0]\<rparr>"
    by (simp add: getPayload_eq md fields ex_tds_7_4_def)
  have "data (rowsData ex_after_failure) = [0xD1, 1, 7, 1]"
    by (simp add: ex_after_failure_fields data_def)
  moreover have "fst (addRow ex_TOKEN_TYPE [JNum 1, JNum 2] ex_after_failure) = Inr ()"
    by (simp add: ex_addRow_succeeds)
  ultimately show ?thesis using ex_addRow_fails fields(3) payload by simp
qed

text \<open>
  C2, as amended. When \<open>addRow\<close> fails, some column \<open>k\<close> is the first whose value encoder
  throws, the error is the one it threw, and the row buffer keeps every byte written up
  to the throw: its bytes are the bytes before the call, the row marker, and the output
  of the encoders of the columns 0 to \<open>k\<close> in order, the throwing one included. Nothing
  else of the instance changes but the latch, which is set. The instance does not
  refuse to continue: a later \<open>addRow\<close> has the outcome it would have had without the
  failure and appends its marker and bytes after the partial row, and the payload,
  whenever the metadata encodes, is the metadata, the row buffer with the partial row,
  and the completion token.
\<close>

theorem addRow_failure_keeps_partial_row:
  assumes "addRow TT input this = (Inl e, this')"
  shows "(\<exists>k<length (columns this).
            (\<forall>j<k. snd (encoder_call (options this) (columns this ! j)
                           (value_at (row_of input) j (columns this ! j))) = None)
            \<and> snd (encoder_call (options this) (columns this ! k)
                      (value_at (row_of input) k (columns this ! k))) = Some e
            \<and> data (rowsData this') =
                data (rowsData this) @ ROW TT #
                concat (map (\<lambda>j. fst (encoder_call (options this) (columns this ! j)
                                        (value_at (row_of input) j (columns this ! j))))
                          [0..<Suc k]))
    \<and> this' = this\<lparr>firstRowWritten := True, rowsData := rowsData this'\<rparr>
    \<and> (\<exists>bs r. spec_encode_columns (options this) (value_at (row_of input2)) 0 (columns this) =
                 (bs, r)
          \<and> fst (addRow TT input2 this) = (case r of None \<Rightarrow> Inr () | Some e2 \<Rightarrow> Inl e2)
          \<and> addRow TT input2 this' =
              ((case r of None \<Rightarrow> Inr () | Some e2 \<Rightarrow> Inl e2),
               this'\<lparr>rowsData := copyFrom (ROW TT # bs) (rowsData this')\<rparr>))
    \<and> (\<forall>md. getColMetaData TT this = Inr md \<longrightarrow>
          (\<exists>p tok. getPayload TT this' = Inr p \<and> done_token TT (options this) = Inr tok
             \<and> data p = md @ data (rowsData this') @ data tok))"
proof -
  obtain bs0 r0 where s0: "spec_encode_columns (options this) (value_at (row_of input)) 0
      (columns this) = (bs0, r0)"
    by (cases "spec_encode_columns (options this) (value_at (row_of input)) 0 (columns this)") auto
  from assms s0 have r0: "r0 = Some e"
    and t': "this' = this\<lparr>firstRowWritten := True,
                          rowsData := copyFrom (ROW TT # bs0) (rowsData this)\<rparr>"
    by (auto simp: addRow_spec spec_append_row_def split: option.splits)
  have cols: "columns this' = columns this" and opts: "options this' = options this"
    and latch: "firstRowWritten this'"
    by (simp_all add: t')
  from spec_encode_columns_fails [OF s0 [unfolded r0]] obtain k where k: "k < length (columns this)"
    and a: "\<forall>j<k. snd (encoder_call (options this) (columns this ! j)
                           (value_at (row_of input) (0 + j) (columns this ! j))) = None"
    and f: "snd (encoder_call (options this) (columns this ! k)
                      (value_at (row_of input) (0 + k) (columns this ! k))) = Some e"
    and b: "bs0 = concat (map (\<lambda>j. fst (encoder_call (options this) (columns this ! j)
                                        (value_at (row_of input) (0 + j) (columns this ! j))))
                          [0..<Suc k])"
    by blast
  have d: "data (rowsData this') = data (rowsData this) @ ROW TT # bs0"
    by (simp add: t' data_def copyFrom_def)
  have 1: "\<exists>k<length (columns this).
            (\<forall>j<k. snd (encoder_call (options this) (columns this ! j)
                           (value_at (row_of input) j (columns this ! j))) = None)
            \<and> snd (encoder_call (options this) (columns this ! k)
                      (value_at (row_of input) k (columns this ! k))) = Some e
            \<and> data (rowsData this') =
                data (rowsData this) @ ROW TT #
                concat (map (\<lambda>j. fst (encoder_call (options this) (columns this ! j)
                                        (value_at (row_of input) j (columns this ! j))))
                          [0..<Suc k])"
    using k a f b d by (intro exI [of _ k]) (simp del: upt_Suc)
  have 2: "this' = this\<lparr>firstRowWritten := True, rowsData := rowsData this'\<rparr>"
    by (simp add: t')
  obtain bs r where s: "spec_encode_columns (options this) (value_at (row_of input2)) 0
      (columns this) = (bs, r)"
    by (cases "spec_encode_columns (options this) (value_at (row_of input2)) 0 (columns this)") auto
  have 3: "\<exists>bs r. spec_encode_columns (options this) (value_at (row_of input2)) 0 (columns this) =
                 (bs, r)
          \<and> fst (addRow TT input2 this) = (case r of None \<Rightarrow> Inr () | Some e2 \<Rightarrow> Inl e2)
          \<and> addRow TT input2 this' =
              ((case r of None \<Rightarrow> Inr () | Some e2 \<Rightarrow> Inl e2),
               this'\<lparr>rowsData := copyFrom (ROW TT # bs) (rowsData this')\<rparr>)"
    using s latch by (intro exI [of _ bs] exI [of _ r])
      (simp add: addRow_spec spec_append_row_def cols opts)
  have 4: "\<forall>md. getColMetaData TT this = Inr md \<longrightarrow>
          (\<exists>p tok. getPayload TT this' = Inr p \<and> done_token TT (options this) = Inr tok
             \<and> data p = md @ data (rowsData this') @ data tok)"
  proof (intro allI impI)
    fix md assume "getColMetaData TT this = Inr md"
    then have "getColMetaData TT this' = Inr md"
      using getColMetaData_cong [of this' this TT] cols opts by simp
    then show "\<exists>p tok. getPayload TT this' = Inr p \<and> done_token TT (options this) = Inr tok
             \<and> data p = md @ data (rowsData this') @ data tok"
      by (simp add: getPayload_eq done_token_eq opts data_def)
  qed
  from 1 2 3 4 show ?thesis by blast
qed

theorem addRow_failure_keeps_partial_row_witness:
  "addRow ex_TOKEN_TYPE [JNum 7, JNum 300] ex_two_columns =
     (Inl (RangeError ''value is out of range''), ex_after_failure)
   \<and> (\<exists>k<length (columns ex_two_columns).
        snd (encoder_call (options ex_two_columns) (columns ex_two_columns ! k)
               (value_at (row_of [JNum 7, JNum 300]) k (columns ex_two_columns ! k))) =
          Some (RangeError ''value is out of range'')
        \<and> data (rowsData ex_after_failure) =
            data (rowsData ex_two_columns) @ ROW ex_TOKEN_TYPE #
            concat (map (\<lambda>j. fst (encoder_call (options ex_two_columns)
                                    (columns ex_two_columns ! j)
                                    (value_at (row_of [JNum 7, JNum 300]) j
                                       (columns ex_two_columns ! j))))
                      [0..<Suc k]))
   \<and> data (rowsData ex_after_failure) = [0xD1, 1, 7, 1]
   \<and> ex_after_failure =
       ex_two_columns\<lparr>firstRowWritten := True, rowsData := rowsData ex_after_failure\<rparr>"
proof -
  note t = addRow_failure_keeps_partial_row [OF ex_addRow_fails, of "[JNum 1, JNum 2]"]
  from t have 1: "\<exists>k<length (columns ex_two_columns).
        snd (encoder_call (options ex_two_columns) (columns ex_two_columns ! k)
               (value_at (row_of [JNum 7, JNum 300]) k (columns ex_two_columns ! k))) =
          Some (RangeError ''value is out of range'')
        \<and> data (rowsData ex_after_failure) =
            data (rowsData ex_two_columns) @ ROW ex_TOKEN_TYPE #
            concat (map (\<lambda>j. fst (encoder_call (options ex_two_columns)
                                    (columns ex_two_columns ! j)
                                    (value_at (row_of [JNum 7, JNum 300]) j
                                       (columns ex_two_columns ! j))))
                      [0..<Suc k])"
    by blast
  from t have 2: "ex_after_failure =
       ex_two_columns\<lparr>firstRowWritten := True, rowsData := rowsData ex_after_failure\<rparr>"
    by blast
  have 3: "data (rowsData ex_after_failure) = [0xD1, 1, 7, 1]"
    by (simp add: ex_after_failure_fields data_def)
  from ex_addRow_fails 1 2 3 show ?thesis by blast
qed

subsection \<open>The registry is frozen by the first row\<close>

text \<open>
  C3. Once \<open>addRow\<close> has been called on an instance, with whatever arguments and whether
  it returned or threw, and whatever calls followed it, \<open>addColumn\<close> throws the error
  "Columns cannot be added to bulk insert after the first row has been written." and
  leaves the instance as it was: the columns, the index by name and the row buffer are
  unchanged.
\<close>

theorem addColumn_after_addRow_fails:
  "addColumn name ty copts (run TT cs (snd (addRow TT input this))) =
     (Inl (Error ''Columns cannot be added to bulk insert after the first row has been written.''),
      run TT cs (snd (addRow TT input this)))
   \<and> columns (snd (addColumn name ty copts (run TT cs (snd (addRow TT input this))))) =
       columns (run TT cs (snd (addRow TT input this)))
   \<and> columnsByName (snd (addColumn name ty copts (run TT cs (snd (addRow TT input this))))) =
       columnsByName (run TT cs (snd (addRow TT input this)))
   \<and> rowsData (snd (addColumn name ty copts (run TT cs (snd (addRow TT input this))))) =
       rowsData (run TT cs (snd (addRow TT input this)))"
proof -
  have "firstRowWritten (run TT cs (snd (addRow TT input this)))"
    by (rule run_latch) (rule addRow_latch)
  then show ?thesis by (simp add: addColumn_frozen)
qed

theorem addColumn_after_addRow_fails_witness:
  "fst (addRow ex_TOKEN_TYPE [JNum 7, JNum 300] ex_two_columns) =
     Inl (RangeError ''value is out of range'')
   \<and> fst (addColumn ''c'' ex_TinyInt ex_no_ColumnOptions
          (run ex_TOKEN_TYPE [AddRow [JNum 1, JNum 2]]
             (snd (addRow ex_TOKEN_TYPE [JNum 7, JNum 300] ex_two_columns)))) =
       Inl (Error ''Columns cannot be added to bulk insert after the first row has been written.'')
   \<and> columns (snd (addColumn ''c'' ex_TinyInt ex_no_ColumnOptions
          (run ex_TOKEN_TYPE [AddRow [JNum 1, JNum 2]]
             (snd (addRow ex_TOKEN_TYPE [JNum 7, JNum 300] ex_two_columns))))) =
       [ex_column ''a'', ex_column ''b'']
   \<and> data (rowsData (snd (addColumn ''c'' ex_TinyInt ex_no_ColumnOptions
          (run ex_TOKEN_TYPE [AddRow [JNum 1, JNum 2]]
             (snd (addRow ex_TOKEN_TYPE [JNum 7, JNum 300] ex_two_columns)))))) =
       [0xD1, 1, 7, 1, 0xD1, 1, 1, 1, 2]"
  using addColumn_after_addRow_fails [of "''c''" ex_TinyInt ex_no_ColumnOptions ex_TOKEN_TYPE
      "[AddRow [JNum 1, JNum 2]]" "[JNum 7, JNum 300]" ex_two_columns]
  by (simp add: ex_addRow_fails ex_addRow_succeeds ex_after_failure_fields data_def)

text \<open>
  C9. \<open>addRow\<close> sets \<open>firstRowWritten\<close> before anything that can throw: the instance
  after the call is the instance before it with the latch set and the row buffer as
  the writes left it. So when a value encoder throws and the call fails, the latch is
  set all the same and every later \<open>addColumn\<close> fails. No call of the class clears the
  latch: a single call keeps it set, and so does any sequence of calls.
\<close>

theorem addRow_sets_latch_first:
  "snd (addRow TT input this) =
     this\<lparr>firstRowWritten := True, rowsData := rowsData (snd (addRow TT input this))\<rparr>
   \<and> (\<forall>e. fst (addRow TT input this) = Inl e \<longrightarrow>
          firstRowWritten (snd (addRow TT input this))
          \<and> (\<forall>cs name ty copts.
                fst (addColumn name ty copts (run TT cs (snd (addRow TT input this)))) =
                  Inl (Error ''Columns cannot be added to bulk insert after the first row has been written.'')))
   \<and> (\<forall>c s. firstRowWritten s \<longrightarrow> firstRowWritten (exec TT c s))
   \<and> (\<forall>cs s. firstRowWritten s \<longrightarrow> firstRowWritten (run TT cs s))"
proof -
  have "\<And>cs. firstRowWritten (run TT cs (snd (addRow TT input this)))"
    by (rule run_latch) (rule addRow_latch)
  then have "\<And>cs name ty copts.
      fst (addColumn name ty copts (run TT cs (snd (addRow TT input this)))) =
        Inl (Error ''Columns cannot be added to bulk insert after the first row has been written.'')"
    by (simp add: addColumn_frozen)
  moreover have "snd (addRow TT input this) =
     this\<lparr>firstRowWritten := True, rowsData := rowsData (snd (addRow TT input this))\<rparr>"
    by (simp add: addRow_eq)
  ultimately show ?thesis
    by (simp add: addRow_latch exec_latch run_latch)
qed

theorem addRow_sets_latch_first_witness:
  "fst (addRow ex_TOKEN_TYPE [JNum 7, JNum 300] ex_two_columns) =
     Inl (RangeError ''value is out of range'')
   \<and> \<not> firstRowWritten ex_two_columns
   \<and> firstRowWritten (snd (addRow ex_TOKEN_TYPE [JNum 7, JNum 300] ex_two_columns))
   \<and> fst (addColumn ''c'' ex_TinyInt ex_no_ColumnOptions
            (run ex_TOKEN_TYPE [SetTimeout None, GetPayload]
               (snd (addRow ex_TOKEN_TYPE [JNum 7, JNum 300] ex_two_columns)))) =
       Inl (Error ''Columns cannot be added to bulk insert after the first row has been written.'')"
proof -
  have f: "fst (addRow ex_TOKEN_TYPE [JNum 7, JNum 300] ex_two_columns) =
     Inl (RangeError ''value is out of range'')"
    by (simp add: ex_addRow_fails)
  note t = addRow_sets_latch_first [of ex_TOKEN_TYPE "[JNum 7, JNum 300]" ex_two_columns]
  from t f have a: "firstRowWritten (snd (addRow ex_TOKEN_TYPE [JNum 7, JNum 300] ex_two_columns))"
    by blast
  from t f have b: "fst (addColumn ''c'' ex_TinyInt ex_no_ColumnOptions
            (run ex_TOKEN_TYPE [SetTimeout None, GetPayload]
               (snd (addRow ex_TOKEN_TYPE [JNum 7, JNum 300] ex_two_columns)))) =
       Inl (Error ''Columns cannot be added to bulk insert after the first row has been written.'')"
    by blast
  have c: "\<not> firstRowWritten ex_two_columns" by (simp add: ex_two_columns_fields)
  from f a b c show ?thesis by blast
qed

subsection \<open>The payload\<close>

text \<open>
  C5, the claim as stated, fails: \<open>getPayload\<close> does not succeed after every sequence of
  registrations. On the instance that the constructor returns, registering one column
  whose type descriptor throws in \<open>writeTypeInfo\<close> succeeds, and \<open>getPayload\<close>, with no
  row added, then throws that error.
\<close>

theorem getPayload_fails_counterexample:
  "constructor ''t'' ex_tds_7_4 ex_no_Options = Inr ex_BulkLoad
   \<and> fst (addColumn ''a'' ex_Unsupported ex_no_ColumnOptions ex_BulkLoad) = Inr ()
   \<and> getPayload ex_TOKEN_TYPE
        (snd (addColumn ''a'' ex_Unsupported ex_no_ColumnOptions ex_BulkLoad)) =
       Inl (Error ''type not supported'')"
proof -
  let ?s = "snd (addColumn ''a'' ex_Unsupported ex_no_ColumnOptions ex_BulkLoad)"
  let ?c = "(ex_column ''a'')\<lparr>col_type := ex_Unsupported\<rparr>"
  have fields: "columns ?s = [?c]" "options ?s = ex_tds_7_4"
    by (simp_all add: ex_addColumn_Unsupported ex_BulkLoad_fields)
  have ti: "writeTypeInfo ex_Unsupported cf opts = ([], Some (Error ''type not supported''))"
    for cf opts
    by (simp add: ex_Unsupported_def)
  have fl: "column_flags ex_tds_7_4 ?c = 5"
    by (simp add: column_flags_def ex_column_def FLAGS_updateableReadWrite_def FLAGS_nullable_def)
  have v: "js_lt (tdsVersion ex_tds_7_4) ''7_2'' = False"
    by (simp add: ex_tds_7_4_def)
  have "write_columns_meta ex_tds_7_4 [?c] buf = Inl (Error ''type not supported'')" for buf
    by (simp add: v fl ti bindE_def writeUInt16LE_def writeUInt32LE_def)
  then have "getColMetaData ex_TOKEN_TYPE ?s = Inl (Error ''type not supported'')"
    unfolding getColMetaData_def fields
    by (simp add: writeUInt8_uint bindE_def writeUInt16LE_def)
  then have "getPayload ex_TOKEN_TYPE ?s = Inl (Error ''type not supported'')"
    by (simp add: getPayload_eq)
  then show ?thesis by (simp add: ex_BulkLoad_constructed ex_addColumn_Unsupported)
qed

text \<open>
  C5, as amended. \<open>getPayload\<close> fails exactly when \<open>getColMetaData\<close> fails, with the same
  error. Otherwise it returns one buffer, allocated at the summed length of the
  metadata bytes, the row bytes and the completion token, whose content is the three
  in that order. The completion token never fails. With no row added since
  construction the row bytes are empty, and the payload is the metadata followed by
  the completion token.
\<close>

theorem getPayload_concatenation:
  "(\<exists>tok. done_token TT (options this) = Inr tok
      \<and> getPayload TT this =
          (case getColMetaData TT this of
             Inl e \<Rightarrow> Inl e
           | Inr md \<Rightarrow>
               Inr \<lparr>initialSize = length md + length (data (rowsData this)) + length (data tok),
                    encoding = None, doubleSizeGrowth = False,
                    written = md @ data (rowsData this) @ data tok\<rparr>))
   \<and> (constructor tbl co opts = Inr b \<longrightarrow> (\<forall>c \<in> set cs. is_AddRow c = False) \<longrightarrow>
        data (rowsData (run TT cs b)) = [])"
proof -
  have "constructor tbl co opts = Inr b \<longrightarrow> (\<forall>c \<in> set cs. is_AddRow c = False) \<longrightarrow>
        data (rowsData (run TT cs b)) = []"
    using constructor_rowsData [of tbl co opts b] run_rowsData [of cs TT b] by simp
  then show ?thesis
    by (simp add: getPayload_eq done_token_eq data_def split: sum.splits)
qed

theorem getPayload_concatenation_witness:
  "constructor ''t'' ex_tds_7_4 ex_no_Options = Inr ex_BulkLoad
   \<and> ex_two_columns = run ex_TOKEN_TYPE
       [AddColumn ''a'' ex_TinyInt ex_no_ColumnOptions,
        AddColumn ''b'' ex_TinyInt ex_no_ColumnOptions] ex_BulkLoad
   \<and> data (rowsData ex_two_columns) = []
   \<and> getPayload ex_TOKEN_TYPE ex_two_columns =
       Inr \<lparr>initialSize = 38, encoding = None, doubleSizeGrowth = False,
            written = [0x81, 2, 0, 0, 0, 0, 0, 5, 0, 0x26, 1, 1, 0x61, 0,
                                0, 0, 0, 0, 5, 0, 0x26, 1, 1, 0x62, 0]
                      @ []
                      @ [0xFD, 0, 0, 0, 0, 0, 0, 0, 0, 0, 0, 0, 0]\<rparr>"
proof -
  note t = getPayload_concatenation [of ex_TOKEN_TYPE ex_two_columns "''t''" ex_tds_7_4
      ex_no_Options ex_BulkLoad
      "[AddColumn ''a'' ex_TinyInt ex_no_ColumnOptions,
        AddColumn ''b'' ex_TinyInt ex_no_ColumnOptions]"]
  have c: "constructor ''t'' ex_tds_7_4 ex_no_Options = Inr ex_BulkLoad"
    by (rule ex_BulkLoad_constructed)
  have r: "ex_two_columns = run ex_TOKEN_TYPE
       [AddColumn ''a'' ex_TinyInt ex_no_ColumnOptions,
        AddColumn ''b'' ex_TinyInt ex_no_ColumnOptions] ex_BulkLoad"
    by (simp only: ex_two_columns_def)
  have h: "\<forall>c \<in> set [AddColumn ''a'' ex_TinyInt ex_no_ColumnOptions,
        AddColumn ''b'' ex_TinyInt ex_no_ColumnOptions]. is_AddRow c = False"
    by simp
  from t c h have "data (rowsData (run ex_TOKEN_TYPE
       [AddColumn ''a'' ex_TinyInt ex_no_ColumnOptions,
        AddColumn ''b'' ex_TinyInt ex_no_ColumnOptions] ex_BulkLoad)) = []"
    by blast
  then have e: "data (rowsData ex_two_columns) = []"
    by (simp only: ex_two_columns_def)
  have md: "getColMetaData ex_TOKEN_TYPE ex_two_columns =
     Inr [0x81, 2, 0, 0, 0, 0, 0, 5, 0, 0x26, 1, 1, 0x61, 0,
                      0, 0, 0, 0, 5, 0, 0x26, 1, 1, 0x62, 0]"
    by (rule ex_getColMetaData) (simp_all add: ex_two_columns_fields)
  have tok: "done_token ex_TOKEN_TYPE (options ex_two_columns) =
     Inr \<lparr>initialSize = 13, encoding = None, doubleSizeGrowth = False,
          written = [0xFD, 0, 0, 0, 0, 0, 0, 0, 0, 0, 0, 0, 0]\<rparr>"
    by (simp add: done_token_eq ex_two_columns_fields ex_tds_7_4_def ex_TOKEN_TYPE_def)
  from t obtain tok' where "done_token ex_TOKEN_TYPE (options ex_two_columns) = Inr tok'"
    and gp: "getPayload ex_TOKEN_TYPE ex_two_columns =
          (case getColMetaData ex_TOKEN_TYPE ex_two_columns of
             Inl e \<Rightarrow> Inl e
           | Inr md \<Rightarrow>
               Inr \<lparr>initialSize = length md + length (data (rowsData ex_two_columns))
                                    + length (data tok'),
                    encoding = None, doubleSizeGrowth = False,
                    written = md @ data (rowsData ex_two_columns) @ data tok'\<rparr>)"
    by blast
  with tok have "data tok' = [0xFD, 0, 0, 0, 0, 0, 0, 0, 0, 0, 0, 0, 0]"
    by (auto simp: data_def)
  with gp have "getPayload ex_TOKEN_TYPE ex_two_columns =
       Inr \<lparr>initialSize = 38, encoding = None, doubleSizeGrowth = False,
            written = [0x81, 2, 0, 0, 0, 0, 0, 5, 0, 0x26, 1, 1, 0x61, 0,
                                0, 0, 0, 0, 5, 0, 0x26, 1, 1, 0x62, 0]
                      @ []
                      @ [0xFD, 0, 0, 0, 0, 0, 0, 0, 0, 0, 0, 0, 0]\<rparr>"
    by (simp add: md e)
  with c r e show ?thesis by blast
qed

text \<open>
  C6. A second \<open>getPayload\<close>, after the first and after any calls other than \<open>addRow\<close>
  and \<open>addColumn\<close>, has the outcome of the first: the same bytes in a buffer of the
  same size, or the same error. The type descriptors are functions, so their behaviour
  is fixed.
\<close>

theorem getPayload_idempotent:
  "\<forall>c \<in> set cs. is_AddRow c = False \<and> is_AddColumn c = False \<Longrightarrow>
   getPayload TT (run TT cs (exec TT GetPayload this)) = getPayload TT this"
proof -
  assume a: "\<forall>c \<in> set cs. is_AddRow c = False \<and> is_AddColumn c = False"
  have "columns (run TT cs this) = columns this"
    using a by (simp add: run_columns)
  moreover have "options (run TT cs this) = options this"
    by (rule run_options)
  moreover have "rowsData (run TT cs this) = rowsData this"
    using a by (simp add: run_rowsData)
  ultimately have "getPayload TT (run TT cs this) = getPayload TT this"
    by (rule getPayload_cong)
  then show ?thesis by simp
qed

theorem getPayload_idempotent_witness:
  "getPayload ex_TOKEN_TYPE
       (run ex_TOKEN_TYPE [GetColMetaData, SetTimeout (Some 5), GetBulkInsertSql]
          (exec ex_TOKEN_TYPE GetPayload ex_after_failure)) =
     getPayload ex_TOKEN_TYPE ex_after_failure
   \<and> getPayload ex_TOKEN_TYPE ex_after_failure =
       Inr \<lparr>initialSize = 42, encoding = None, doubleSizeGrowth = False,
            written = [0x81, 2, 0, 0, 0, 0, 0, 5, 0, 0x26, 1, 1, 0x61, 0,
                                0, 0, 0, 0, 5, 0, 0x26, 1, 1, 0x62, 0,
                       0xD1, 1, 7, 1,
                       0xFD, 0, 0, 0, 0, 0, 0, 0, 0, 0, 0, 0, 0]\<rparr>"
proof -
  have h: "\<forall>c \<in> set [GetColMetaData, SetTimeout (Some 5), GetBulkInsertSql].
      is_AddRow c = False \<and> is_AddColumn c = False"
    by simp
  have md: "getColMetaData ex_TOKEN_TYPE ex_after_failure =
     Inr [0x81, 2, 0, 0, 0, 0, 0, 5, 0, 0x26, 1, 1, 0x61, 0,
                      0, 0, 0, 0, 5, 0, 0x26, 1, 1, 0x62, 0]"
    by (rule ex_getColMetaData) (simp_all add: ex_after_failure_fields)
  have "DONE ex_TOKEN_TYPE = 0xFD" by (simp add: ex_TOKEN_TYPE_def)
  then have p: "getPayload ex_TOKEN_TYPE ex_after_failure =
       Inr \<lparr>initialSize = 42, encoding = None, doubleSizeGrowth = False,
            written = [0x81, 2, 0, 0, 0, 0, 0, 5, 0, 0x26, 1, 1, 0x61, 0,
                                0, 0, 0, 0, 5, 0, 0x26, 1, 1, 0x62, 0,
                       0xD1, 1, 7, 1,
                       0xFD, 0, 0, 0, 0, 0, 0, 0, 0, 0, 0, 0, 0]\<rparr>"
    by (simp add: getPayload_eq md ex_after_failure_fields data_def ex_tds_7_4_def)
  from getPayload_idempotent [OF h, of ex_TOKEN_TYPE ex_after_failure] p
  show ?thesis by blast
qed

subsection \<open>Construction and the options clause\<close>

text \<open>
  C8. Each of the four flags of the options record defaults to false when it is absent
  (the property reads as undefined). When every flag is absent or a boolean,
  construction succeeds and \<open>bulkOptions\<close> holds the four values, an absent one as
  false. When some flag is present and not a boolean, construction throws a
  \<open>TypeError\<close> and returns no instance.
\<close>

theorem constructor_options:
  "((\<forall>v \<in> set [opt_checkConstraints opts, opt_fireTriggers opts, opt_keepNulls opts,
                 opt_lockTable opts]. v = JUndefined \<or> typeof v = ''boolean'') \<longrightarrow>
      (\<exists>this. constructor tbl co opts = Inr this
         \<and> bulkOptions this =
             \<lparr>checkConstraints = (opt_checkConstraints opts = JBool True),
              fireTriggers = (opt_fireTriggers opts = JBool True),
              keepNulls = (opt_keepNulls opts = JBool True),
              lockTable = (opt_lockTable opts = JBool True)\<rparr>))
   \<and> ((\<exists>v \<in> set [opt_checkConstraints opts, opt_fireTriggers opts, opt_keepNulls opts,
                  opt_lockTable opts]. v \<noteq> JUndefined \<and> typeof v \<noteq> ''boolean'') \<longrightarrow>
      (\<exists>msg. constructor tbl co opts = Inl (TypeError msg)))"
proof (intro conjI impI)
  assume a: "\<forall>v \<in> set [opt_checkConstraints opts, opt_fireTriggers opts, opt_keepNulls opts,
                 opt_lockTable opts]. v = JUndefined \<or> typeof v = ''boolean''"
  then show "\<exists>this. constructor tbl co opts = Inr this
         \<and> bulkOptions this =
             \<lparr>checkConstraints = (opt_checkConstraints opts = JBool True),
              fireTriggers = (opt_fireTriggers opts = JBool True),
              keepNulls = (opt_keepNulls opts = JBool True),
              lockTable = (opt_lockTable opts = JBool True)\<rparr>"
    by (simp add: constructor_def Let_def the_bool_eq)
next
  assume "\<exists>v \<in> set [opt_checkConstraints opts, opt_fireTriggers opts, opt_keepNulls opts,
                  opt_lockTable opts]. v \<noteq> JUndefined \<and> typeof v \<noteq> ''boolean''"
  then consider
      "opt_checkConstraints opts \<noteq> JUndefined \<and> typeof (opt_checkConstraints opts) \<noteq> ''boolean''"
    | "opt_fireTriggers opts \<noteq> JUndefined \<and> typeof (opt_fireTriggers opts) \<noteq> ''boolean''"
    | "opt_keepNulls opts \<noteq> JUndefined \<and> typeof (opt_keepNulls opts) \<noteq> ''boolean''"
    | "opt_lockTable opts \<noteq> JUndefined \<and> typeof (opt_lockTable opts) \<noteq> ''boolean''"
    by auto
  then show "\<exists>msg. constructor tbl co opts = Inl (TypeError msg)"
  proof cases
    case 1
    then show ?thesis by (simp add: constructor_def Let_def not_boolean)
  next
    case 2
    then show ?thesis by (simp add: constructor_def Let_def not_boolean)
  next
    case 3
    then show ?thesis by (simp add: constructor_def Let_def not_boolean)
  next
    case 4
    then show ?thesis by (simp add: constructor_def Let_def not_boolean)
  qed
qed

theorem constructor_options_witness:
  "bulkOptions ex_BulkLoad =
     \<lparr>checkConstraints = False, fireTriggers = False, keepNulls = False, lockTable = False\<rparr>
   \<and> constructor ''t'' ex_tds_7_4 ex_no_Options = Inr ex_BulkLoad
   \<and> (\<exists>this. constructor ''t'' ex_tds_7_4 ex_lock_fire_Options = Inr this
        \<and> bulkOptions this =
            \<lparr>checkConstraints = False, fireTriggers = True, keepNulls = False,
             lockTable = True\<rparr>)
   \<and> (\<exists>msg. constructor ''t'' ex_tds_7_4 (ex_no_Options\<lparr>opt_keepNulls := JNull\<rparr>) =
         Inl (TypeError msg))
   \<and> (\<exists>msg. constructor ''t'' ex_tds_7_4 (ex_no_Options\<lparr>opt_lockTable := JNum 1\<rparr>) =
         Inl (TypeError msg))"
proof -
  have 1: "\<exists>this. constructor ''t'' ex_tds_7_4 ex_lock_fire_Options = Inr this
        \<and> bulkOptions this =
            \<lparr>checkConstraints = False, fireTriggers = True, keepNulls = False,
             lockTable = True\<rparr>"
    using constructor_options [of ex_lock_fire_Options "''t''" ex_tds_7_4]
    by (simp add: ex_lock_fire_Options_def)
  have 2: "\<exists>msg. constructor ''t'' ex_tds_7_4 (ex_no_Options\<lparr>opt_keepNulls := JNull\<rparr>) =
         Inl (TypeError msg)"
    using constructor_options [of "ex_no_Options\<lparr>opt_keepNulls := JNull\<rparr>" "''t''" ex_tds_7_4]
    by (simp add: ex_no_Options_def)
  have 3: "\<exists>msg. constructor ''t'' ex_tds_7_4 (ex_no_Options\<lparr>opt_lockTable := JNum 1\<rparr>) =
         Inl (TypeError msg)"
    using constructor_options [of "ex_no_Options\<lparr>opt_lockTable := JNum 1\<rparr>" "''t''" ex_tds_7_4]
    by (simp add: ex_no_Options_def)
  have 4: "bulkOptions ex_BulkLoad =
     \<lparr>checkConstraints = False, fireTriggers = False, keepNulls = False, lockTable = False\<rparr>"
    by (simp add: ex_BulkLoad_def)
  from 1 2 3 4 ex_BulkLoad_constructed show ?thesis by blast
qed

text \<open>
  C7. On an instance constructed with the options \<open>{lockTable: true, fireTriggers: true}\<close>,
  after any calls, the options clause is \<open>WITH (FIRE_TRIGGERS,TABLOCK)\<close> preceded by one
  space, the names in the declared order and no comma before the first or after the
  last, and the bulk-insert command text, when the column declarations produce one,
  ends with that clause after the closing parenthesis of the column list. When the
  four flags are false the clause is empty and the command text ends with the
  parenthesis.
\<close>

theorem bulk_insert_options_clause:
  "(constructor tbl co
      \<lparr>opt_checkConstraints = JUndefined, opt_fireTriggers = JBool True,
       opt_keepNulls = JUndefined, opt_lockTable = JBool True\<rparr> = Inr b \<longrightarrow>
      getOptionsSql (run TT cs b) = '' WITH (FIRE_TRIGGERS,TABLOCK)''
      \<and> (\<forall>sql. getBulkInsertSql (run TT cs b) = Inr sql \<longrightarrow>
            (\<exists>cols. sql = ''insert bulk '' @ tbl @ ''('' @ cols @ '')''
                           @ '' WITH (FIRE_TRIGGERS,TABLOCK)'')))
   \<and> (bulkOptions this =
        \<lparr>checkConstraints = False, fireTriggers = False, keepNulls = False,
         lockTable = False\<rparr> \<longrightarrow>
      getOptionsSql this = []
      \<and> (\<forall>sql. getBulkInsertSql this = Inr sql \<longrightarrow>
            (\<exists>cols. sql = ''insert bulk '' @ table this @ ''('' @ cols @ '')'')))"
proof (intro conjI impI allI)
  assume c: "constructor tbl co
      \<lparr>opt_checkConstraints = JUndefined, opt_fireTriggers = JBool True,
       opt_keepNulls = JUndefined, opt_lockTable = JBool True\<rparr> = Inr b"
  then have "bulkOptions b =
      \<lparr>checkConstraints = False, fireTriggers = True, keepNulls = False, lockTable = True\<rparr>"
    by (auto simp: constructor_def Let_def default_to_def)
  then have "bulkOptions (run TT cs b) =
      \<lparr>checkConstraints = False, fireTriggers = True, keepNulls = False, lockTable = True\<rparr>"
    by (simp add: run_bulkOptions)
  then show o: "getOptionsSql (run TT cs b) = '' WITH (FIRE_TRIGGERS,TABLOCK)''"
    by (simp add: getOptionsSql_def)
  fix sql assume "getBulkInsertSql (run TT cs b) = Inr sql"
  then obtain cols where "sql = ''insert bulk '' @ table (run TT cs b) @ ''('' @ cols @ '')''
      @ getOptionsSql (run TT cs b)"
    using getBulkInsertSql_shape by blast
  moreover have "table (run TT cs b) = tbl"
    using c constructor_fields [of tbl co _ b] by (simp add: run_table)
  ultimately show "\<exists>cols. sql = ''insert bulk '' @ tbl @ ''('' @ cols @ '')''
                           @ '' WITH (FIRE_TRIGGERS,TABLOCK)''"
    using o by auto
next
  assume "bulkOptions this =
        \<lparr>checkConstraints = False, fireTriggers = False, keepNulls = False,
         lockTable = False\<rparr>"
  then show o: "getOptionsSql this = []"
    by (simp add: getOptionsSql_def)
  fix sql assume "getBulkInsertSql this = Inr sql"
  then obtain cols where "sql = ''insert bulk '' @ table this @ ''('' @ cols @ '')''
      @ getOptionsSql this"
    using getBulkInsertSql_shape by blast
  then show "\<exists>cols. sql = ''insert bulk '' @ table this @ ''('' @ cols @ '')''"
    using o by auto
qed

theorem bulk_insert_options_clause_witness:
  "constructor ''t'' ex_tds_7_4 ex_lock_fire_Options =
     Inr (ex_BulkLoad\<lparr>bulkOptions :=
            \<lparr>checkConstraints = False, fireTriggers = True, keepNulls = False,
             lockTable = True\<rparr>\<rparr>)
   \<and> getBulkInsertSql
        (run ex_TOKEN_TYPE
           [AddColumn ''a'' ex_TinyInt ex_no_ColumnOptions,
            AddColumn ''b'' ex_TinyInt ex_no_ColumnOptions]
           (ex_BulkLoad\<lparr>bulkOptions :=
              \<lparr>checkConstraints = False, fireTriggers = True, keepNulls = False,
               lockTable = True\<rparr>\<rparr>)) =
       Inr ''insert bulk t([a] tinyint, [b] tinyint) WITH (FIRE_TRIGGERS,TABLOCK)''
   \<and> getOptionsSql ex_two_columns = []
   \<and> getBulkInsertSql ex_two_columns = Inr ''insert bulk t([a] tinyint, [b] tinyint)''"
proof -
  let ?b = "ex_BulkLoad\<lparr>bulkOptions :=
            \<lparr>checkConstraints = False, fireTriggers = True, keepNulls = False,
             lockTable = True\<rparr>\<rparr>"
  let ?cs = "[AddColumn ''a'' ex_TinyInt ex_no_ColumnOptions,
            AddColumn ''b'' ex_TinyInt ex_no_ColumnOptions]"
  have c: "constructor ''t'' ex_tds_7_4
      \<lparr>opt_checkConstraints = JUndefined, opt_fireTriggers = JBool True,
       opt_keepNulls = JUndefined, opt_lockTable = JBool True\<rparr> = Inr ?b"
    using ex_lock_fire_constructed by (simp only: ex_lock_fire_Options_def)
  have n: "bulkOptions ex_two_columns =
        \<lparr>checkConstraints = False, fireTriggers = False, keepNulls = False,
         lockTable = False\<rparr>"
    by (simp only: ex_two_columns_def run_bulkOptions) (simp add: ex_BulkLoad_def)
  note t = bulk_insert_options_clause [of "''t''" ex_tds_7_4 ?b ex_TOKEN_TYPE ?cs ex_two_columns]
  from t c have o: "getOptionsSql (run ex_TOKEN_TYPE ?cs ?b) = '' WITH (FIRE_TRIGGERS,TABLOCK)''"
    by blast
  from t n have e: "getOptionsSql ex_two_columns = []"
    by blast
  have f: "columns (run ex_TOKEN_TYPE ?cs ?b) = [ex_column ''a'', ex_column ''b'']"
    "table (run ex_TOKEN_TYPE ?cs ?b) = ''t''"
    by (simp_all add: ex_addColumn ex_BulkLoad_def)
  have 1: "getBulkInsertSql (run ex_TOKEN_TYPE ?cs ?b) =
       Inr ''insert bulk t([a] tinyint, [b] tinyint) WITH (FIRE_TRIGGERS,TABLOCK)''"
    using ex_getBulkInsertSql [OF f] o by simp
  have 2: "getBulkInsertSql ex_two_columns = Inr ''insert bulk t([a] tinyint, [b] tinyint)''"
    using ex_getBulkInsertSql [of ex_two_columns] e by (simp add: ex_two_columns_fields)
  from ex_lock_fire_constructed 1 e 2 show ?thesis by blast
qed

subsection \<open>Positional and by-name rows\<close>

text \<open>
  C10. \<open>addRow\<close> does what the row buffer's contract says, with these values for the
  columns. A single argument that is falsy (null, 0, the empty string, false) is read
  by position as the argument list itself: column 0 gets the argument and every other
  column undefined; this holds for null although its \<open>typeof\<close> is \<open>'object'\<close>. A single
  array argument is read by position: column \<open>i\<close> gets its element \<open>i\<close>. A single object
  argument that is not an array is read by name: a column gets the object's property
  named by the column's \<open>objName\<close>, looked up on the object and then along its prototype
  chain. Every other argument list is read by position: column \<open>i\<close> gets argument \<open>i\<close>.
\<close>

theorem addRow_argument_disambiguation:
  "(\<not> truthy v \<longrightarrow>
      addRow TT [v] this = spec_append_row TT (\<lambda>i c. if i = 0 then v else JUndefined) this)
   \<and> \<not> truthy JNull \<and> \<not> truthy (JNum 0) \<and> \<not> truthy (JStr []) \<and> \<not> truthy (JBool False)
   \<and> typeof JNull = ''object''
   \<and> addRow TT [JArr xs] this = spec_append_row TT (\<lambda>i c. js_index xs i) this
   \<and> addRow TT [JObj chain] this =
       spec_append_row TT (\<lambda>i c. chain_lookup chain (col_objName c)) this
   \<and> ((\<forall>chain'. input \<noteq> [JObj chain']) \<and> (\<forall>xs'. input \<noteq> [JArr xs']) \<longrightarrow>
        addRow TT input this = spec_append_row TT (\<lambda>i c. js_index input i) this)"
  by (simp add: addRow_spec value_at_falsy value_at_array value_at_object value_at_positional)

theorem addRow_argument_disambiguation_witness:
  "\<not> truthy (JNum 0)
   \<and> addRow ex_TOKEN_TYPE [JNum 0] ex_two_columns =
       (Inr (), ex_two_columns\<lparr>firstRowWritten := True,
          rowsData := \<lparr>initialSize = 1024, encoding = Some ''ucs2'', doubleSizeGrowth = True,
                        written = [0xD1, 1, 0, 0]\<rparr>\<rparr>)
   \<and> addRow ex_TOKEN_TYPE [JArr [JNum 3, JNum 4]] ex_two_columns =
       (Inr (), ex_two_columns\<lparr>firstRowWritten := True,
          rowsData := \<lparr>initialSize = 1024, encoding = Some ''ucs2'', doubleSizeGrowth = True,
                        written = [0xD1, 1, 3, 1, 4]\<rparr>\<rparr>)
   \<and> addRow ex_TOKEN_TYPE [ex_row_object] ex_two_columns =
       (Inr (), ex_two_columns\<lparr>firstRowWritten := True,
          rowsData := \<lparr>initialSize = 1024, encoding = Some ''ucs2'', doubleSizeGrowth = True,
                        written = [0xD1, 0, 1, 2]\<rparr>\<rparr>)
   \<and> addRow ex_TOKEN_TYPE [ex_row_object] ex_named_columns =
       spec_append_row ex_TOKEN_TYPE
         (\<lambda>i c. chain_lookup [[(''b'', JNum 2)], ex_prototype] (col_objName c))
         ex_named_columns
   \<and> chain_lookup [[(''b'', JNum 2)], ex_prototype] (col_objName (ex_column ''toString'')) =
       JFunction 1
   \<and> addRow ex_TOKEN_TYPE [JNum 3, JNum 4] ex_two_columns =
       addRow ex_TOKEN_TYPE [JArr [JNum 3, JNum 4]] ex_two_columns"
proof -
  have f: "\<not> truthy (JNum 0)" by simp
  note t = addRow_argument_disambiguation [of "JNum 0" ex_TOKEN_TYPE ex_two_columns
      "[JNum 3, JNum 4]" "[[(''b'', JNum 2)], ex_prototype]" "[JNum 3, JNum 4]"]
  note u = addRow_argument_disambiguation [of "JNum 0" ex_TOKEN_TYPE ex_named_columns
      "[JNum 3, JNum 4]" "[[(''b'', JNum 2)], ex_prototype]" "[JNum 3, JNum 4]"]
  from t f have "addRow ex_TOKEN_TYPE [JNum 0] ex_two_columns =
      spec_append_row ex_TOKEN_TYPE (\<lambda>i c. if i = 0 then JNum 0 else JUndefined) ex_two_columns"
    by blast
  then have 1: "addRow ex_TOKEN_TYPE [JNum 0] ex_two_columns =
       (Inr (), ex_two_columns\<lparr>firstRowWritten := True,
          rowsData := \<lparr>initialSize = 1024, encoding = Some ''ucs2'', doubleSizeGrowth = True,
                        written = [0xD1, 1, 0, 0]\<rparr>\<rparr>)"
    by (simp add: spec_append_row_def ex_two_columns_fields ex_encoder_call copyFrom_def
        new_WritableTrackingBuffer_def ex_TOKEN_TYPE_def)
  from t have "addRow ex_TOKEN_TYPE [JArr [JNum 3, JNum 4]] ex_two_columns =
      spec_append_row ex_TOKEN_TYPE (\<lambda>i c. js_index [JNum 3, JNum 4] i) ex_two_columns"
    by blast
  then have 2: "addRow ex_TOKEN_TYPE [JArr [JNum 3, JNum 4]] ex_two_columns =
       (Inr (), ex_two_columns\<lparr>firstRowWritten := True,
          rowsData := \<lparr>initialSize = 1024, encoding = Some ''ucs2'', doubleSizeGrowth = True,
                        written = [0xD1, 1, 3, 1, 4]\<rparr>\<rparr>)"
    by (simp add: spec_append_row_def ex_two_columns_fields ex_encoder_call copyFrom_def
        new_WritableTrackingBuffer_def ex_TOKEN_TYPE_def js_index_def)
  from t have "addRow ex_TOKEN_TYPE [JObj [[(''b'', JNum 2)], ex_prototype]] ex_two_columns =
      spec_append_row ex_TOKEN_TYPE
         (\<lambda>i c. chain_lookup [[(''b'', JNum 2)], ex_prototype] (col_objName c))
         ex_two_columns"
    by blast
  then have 3: "addRow ex_TOKEN_TYPE [ex_row_object] ex_two_columns =
       (Inr (), ex_two_columns\<lparr>firstRowWritten := True,
          rowsData := \<lparr>initialSize = 1024, encoding = Some ''ucs2'', doubleSizeGrowth = True,
                        written = [0xD1, 0, 1, 2]\<rparr>\<rparr>)"
    by (simp add: ex_row_object_def spec_append_row_def ex_two_columns_fields ex_encoder_call
        copyFrom_def new_WritableTrackingBuffer_def ex_TOKEN_TYPE_def ex_column_objName
        ex_prototype_def)
  from u have 4: "addRow ex_TOKEN_TYPE [ex_row_object] ex_named_columns =
       spec_append_row ex_TOKEN_TYPE
         (\<lambda>i c. chain_lookup [[(''b'', JNum 2)], ex_prototype] (col_objName c))
         ex_named_columns"
    unfolding ex_row_object_def by blast
  have 5: "chain_lookup [[(''b'', JNum 2)], ex_prototype] (col_objName (ex_column ''toString'')) =
       JFunction 1"
    by (simp add: ex_prototype_def ex_column_objName)
  from t have "addRow ex_TOKEN_TYPE [JNum 3, JNum 4] ex_two_columns =
      spec_append_row ex_TOKEN_TYPE (\<lambda>i c. js_index [JNum 3, JNum 4] i) ex_two_columns"
    by simp
  with t have 6: "addRow ex_TOKEN_TYPE [JNum 3, JNum 4] ex_two_columns =
       addRow ex_TOKEN_TYPE [JArr [JNum 3, JNum 4]] ex_two_columns"
    by simp
  from f 1 2 3 4 5 6 show ?thesis by blast
qed

subsection \<open>The flags of a column\<close>

text \<open>
  C1, the claim as stated, fails in its second case. \<open>addColumn\<close> replaces an omitted
  \<open>nullable\<close> by its default \<open>true\<close>, so on protocol version \<open>'7_4'\<close> a column
  registered with no options is stored as nullable: its flags are 5, with the nullable
  bit set and the nullable-unknown bit clear, and the metadata carries the bytes 5, 0.
\<close>

theorem omitted_nullable_counterexample:
  "co_nullable ex_no_ColumnOptions = None
   \<and> js_ge (tdsVersion ex_tds_7_4) ''7_2''
   \<and> fst (addColumn ''a'' ex_TinyInt ex_no_ColumnOptions ex_BulkLoad) = Inr ()
   \<and> columns (snd (addColumn ''a'' ex_TinyInt ex_no_ColumnOptions ex_BulkLoad)) =
       [ex_column ''a'']
   \<and> column_flags ex_tds_7_4 (ex_column ''a'') = 5
   \<and> column_flags ex_tds_7_4 (ex_column ''a'') AND FLAGS_nullable = FLAGS_nullable
   \<and> column_flags ex_tds_7_4 (ex_column ''a'') AND FLAGS_nullableUnknown = 0
   \<and> getColMetaData ex_TOKEN_TYPE
        (snd (addColumn ''a'' ex_TinyInt ex_no_ColumnOptions ex_BulkLoad)) =
       Inr [0x81, 1, 0, 0, 0, 0, 0, 5, 0, 0x26, 1, 1, 0x61, 0]"
proof -
  let ?s = "snd (addColumn ''a'' ex_TinyInt ex_no_ColumnOptions ex_BulkLoad)"
  have a: "addColumn ''a'' ex_TinyInt ex_no_ColumnOptions ex_BulkLoad =
     (Inr (), ex_BulkLoad\<lparr>columns := columns ex_BulkLoad @ [ex_column ''a''],
                  columnsByName := (columnsByName ex_BulkLoad)(''a'' \<mapsto> ex_column ''a'')\<rparr>)"
    by (rule ex_addColumn) (simp add: ex_BulkLoad_fields)
  have f: "columns ?s = [ex_column ''a'']" "options ?s = ex_tds_7_4"
    by (simp_all add: a ex_BulkLoad_fields)
  have v: "js_lt (tdsVersion ex_tds_7_4) ''7_2'' = False"
    by (simp add: ex_tds_7_4_def)
  have md: "getColMetaData ex_TOKEN_TYPE ?s =
       Inr [0x81, 1, 0, 0, 0, 0, 0, 5, 0, 0x26, 1, 1, 0x61, 0]"
    unfolding getColMetaData_def f
    by (simp add: writeUInt8_uint bindE_def writeUInt16LE_def
        writeUInt32LE_def writeUInt8_def writeBVarchar_def ucs2_def ex_writeTypeInfo
        ex_column_sel ex_column_flags copyFrom_def new_WritableTrackingBuffer_def data_def
        ex_TOKEN_TYPE_def v)
  have "co_nullable ex_no_ColumnOptions = None" by (simp add: ex_no_ColumnOptions_def)
  moreover have "js_ge (tdsVersion ex_tds_7_4) ''7_2''" by (simp add: js_ge_def v)
  moreover have "fst (addColumn ''a'' ex_TinyInt ex_no_ColumnOptions ex_BulkLoad) = Inr ()"
    by (simp add: a)
  moreover have "column_flags ex_tds_7_4 (ex_column ''a'') = 5
   \<and> column_flags ex_tds_7_4 (ex_column ''a'') AND FLAGS_nullable = FLAGS_nullable
   \<and> column_flags ex_tds_7_4 (ex_column ''a'') AND FLAGS_nullableUnknown = 0"
    by (simp add: ex_column_flags FLAGS_values)
  ultimately show ?thesis using f(1) md by blast
qed

text \<open>
  C1, as amended. On an instance built by the constructor and any calls, every column
  of the registry has \<open>nullable\<close> true or false, never undefined, and the metadata that
  \<open>getColMetaData\<close> emits is the marker, the 2-byte column count and then, for each
  column of the registry in order, the user-type field, the 2-byte flags, the
  type-information block and the name: the flags are the updateable (read/write) bit
  together with the nullable bit when the column's \<open>nullable\<close> is true, and the
  updateable bit alone when it is false; the nullable-unknown bit is in neither. A
  column that \<open>addColumn\<close> registers has \<open>nullable\<close> false when it was given as false and
  true when it was given as true or omitted, and keeps its place in the registry
  through all later calls.
\<close>

theorem registered_column_flags:
  assumes "constructor tbl co opts0 = Inr b0"
  shows "(\<forall>c \<in> set (columns (run TT cs b0)).
            col_nullable c = Some True \<or> col_nullable c = Some False)
    \<and> (\<forall>md. getColMetaData TT (run TT cs b0) = Inr md \<longrightarrow>
          md = [COLMETADATA TT, of_nat (length (columns (run TT cs b0))),
                of_nat (length (columns (run TT cs b0)) div 256)] @
            concat (map (\<lambda>c. (if js_lt (tdsVersion co) ''7_2'' then [0, 0] else [0, 0, 0, 0])
                       @ [of_int (if col_nullable c = Some True
                                  then FLAGS_updateableReadWrite OR FLAGS_nullable
                                  else FLAGS_updateableReadWrite), 0]
                       @ fst (writeTypeInfo (col_type c) (column_fields.truncate c) co)
                       @ of_nat (length (col_name c)) # ucs2 (col_name c))
                    (columns (run TT cs b0))))
    \<and> (\<forall>name ty copts this'.
          addColumn name ty copts (run TT cs b0) = (Inr (), this') \<longrightarrow>
          (\<exists>c. col_name c = name
             \<and> col_nullable c = Some (co_nullable copts \<noteq> Some False)
             \<and> (\<forall>cs'. \<exists>more. columns (run TT cs' this') = columns (run TT cs b0) @ c # more)))
    \<and> (FLAGS_updateableReadWrite OR FLAGS_nullable) AND FLAGS_updateableReadWrite =
        FLAGS_updateableReadWrite
    \<and> (FLAGS_updateableReadWrite OR FLAGS_nullable) AND FLAGS_nullable = FLAGS_nullable
    \<and> (FLAGS_updateableReadWrite OR FLAGS_nullable) AND FLAGS_nullableUnknown = 0
    \<and> FLAGS_updateableReadWrite AND FLAGS_updateableReadWrite = FLAGS_updateableReadWrite
    \<and> FLAGS_updateableReadWrite AND FLAGS_nullable = 0
    \<and> FLAGS_updateableReadWrite AND FLAGS_nullableUnknown = 0"
proof -
  let ?s = "run TT cs b0"
  have o: "options ?s = co"
    using constructor_fields [OF assms] by (simp add: run_options)
  have "columns b0 = []" using constructor_rowsData [OF assms] by simp
  then have "\<forall>c \<in> set (columns b0). col_nullable c = Some True \<or> col_nullable c = Some False"
    by simp
  then have 1: "\<forall>c \<in> set (columns ?s). col_nullable c = Some True \<or> col_nullable c = Some False"
    by (rule run_nullable_inv)
  have 2: "\<forall>md. getColMetaData TT ?s = Inr md \<longrightarrow>
          md = [COLMETADATA TT, of_nat (length (columns ?s)),
                of_nat (length (columns ?s) div 256)] @
            concat (map (\<lambda>c. (if js_lt (tdsVersion co) ''7_2'' then [0, 0] else [0, 0, 0, 0])
                       @ [of_int (if col_nullable c = Some True
                                  then FLAGS_updateableReadWrite OR FLAGS_nullable
                                  else FLAGS_updateableReadWrite), 0]
                       @ fst (writeTypeInfo (col_type c) (column_fields.truncate c) co)
                       @ of_nat (length (col_name c)) # ucs2 (col_name c))
                    (columns ?s))"
  proof (intro allI impI)
    fix md assume "getColMetaData TT ?s = Inr md"
    note b = getColMetaData_bytes [OF this, unfolded o]
    have "map (\<lambda>c. (if js_lt (tdsVersion co) ''7_2'' then [0, 0] else [0, 0, 0, 0])
                       @ [of_int (column_flags co c), of_int (column_flags co c div 2 ^ 8)]
                       @ fst (writeTypeInfo (col_type c) (column_fields.truncate c) co)
                       @ of_nat (length (col_name c)) # ucs2 (col_name c)) (columns ?s)
       = map (\<lambda>c. (if js_lt (tdsVersion co) ''7_2'' then [0, 0] else [0, 0, 0, 0])
                       @ [of_int (if col_nullable c = Some True
                                  then FLAGS_updateableReadWrite OR FLAGS_nullable
                                  else FLAGS_updateableReadWrite), 0]
                       @ fst (writeTypeInfo (col_type c) (column_fields.truncate c) co)
                       @ of_nat (length (col_name c)) # ucs2 (col_name c)) (columns ?s)"
    proof (rule map_cong [OF refl])
      fix c assume "c \<in> set (columns ?s)"
      with 1 have "col_nullable c = Some True \<or> col_nullable c = Some False" by blast
      then have f1: "column_flags co c =
          (if col_nullable c = Some True then FLAGS_updateableReadWrite OR FLAGS_nullable
           else FLAGS_updateableReadWrite)"
        and f2: "(of_int (column_flags co c div 2 ^ 8) :: byte) = 0"
        by (auto simp: column_flags_value FLAGS_values)
      show "(if js_lt (tdsVersion co) ''7_2'' then [0, 0] else [0, 0, 0, 0])
                       @ [of_int (column_flags co c), of_int (column_flags co c div 2 ^ 8)]
                       @ fst (writeTypeInfo (col_type c) (column_fields.truncate c) co)
                       @ of_nat (length (col_name c)) # ucs2 (col_name c)
         = (if js_lt (tdsVersion co) ''7_2'' then [0, 0] else [0, 0, 0, 0])
                       @ [of_int (if col_nullable c = Some True
                                  then FLAGS_updateableReadWrite OR FLAGS_nullable
                                  else FLAGS_updateableReadWrite), 0]
                       @ fst (writeTypeInfo (col_type c) (column_fields.truncate c) co)
                       @ of_nat (length (col_name c)) # ucs2 (col_name c)"
        by (simp only: f2) (simp only: f1)
    qed
    with b show "md = [COLMETADATA TT, of_nat (length (columns ?s)),
                of_nat (length (columns ?s) div 256)] @
            concat (map (\<lambda>c. (if js_lt (tdsVersion co) ''7_2'' then [0, 0] else [0, 0, 0, 0])
                       @ [of_int (if col_nullable c = Some True
                                  then FLAGS_updateableReadWrite OR FLAGS_nullable
                                  else FLAGS_updateableReadWrite), 0]
                       @ fst (writeTypeInfo (col_type c) (column_fields.truncate c) co)
                       @ of_nat (length (col_name c)) # ucs2 (col_name c))
                    (columns ?s))"
      by (simp only:)
  qed
  have 3: "\<forall>name ty copts this'.
          addColumn name ty copts ?s = (Inr (), this') \<longrightarrow>
          (\<exists>c. col_name c = name
             \<and> col_nullable c = Some (co_nullable copts \<noteq> Some False)
             \<and> (\<forall>cs'. \<exists>more. columns (run TT cs' this') = columns ?s @ c # more))"
  proof (intro allI impI)
    fix name ty copts this'
    assume "addColumn name ty copts ?s = (Inr (), this')"
    from addColumn_Inr [OF this] obtain c where c: "columns this' = columns ?s @ [c]"
      and n: "col_nullable c = Some (case co_nullable copts of None \<Rightarrow> True | Some b \<Rightarrow> b)"
      and m: "col_name c = name"
      by blast
    have n': "col_nullable c = Some (co_nullable copts \<noteq> Some False)"
      using n by (cases "co_nullable copts") auto
    have "\<forall>cs'. \<exists>more. columns (run TT cs' this') = columns ?s @ c # more"
    proof
      fix cs'
      obtain more where "columns (run TT cs' this') = columns this' @ more"
        using run_columns_prefix by blast
      with c show "\<exists>more. columns (run TT cs' this') = columns ?s @ c # more" by simp
    qed
    with m n' show "\<exists>c. col_name c = name
             \<and> col_nullable c = Some (co_nullable copts \<noteq> Some False)
             \<and> (\<forall>cs'. \<exists>more. columns (run TT cs' this') = columns ?s @ c # more)"
      by blast
  qed
  have 4: "(FLAGS_updateableReadWrite OR FLAGS_nullable) AND FLAGS_updateableReadWrite =
        FLAGS_updateableReadWrite
    \<and> (FLAGS_updateableReadWrite OR FLAGS_nullable) AND FLAGS_nullable = FLAGS_nullable
    \<and> (FLAGS_updateableReadWrite OR FLAGS_nullable) AND FLAGS_nullableUnknown = 0
    \<and> FLAGS_updateableReadWrite AND FLAGS_updateableReadWrite = FLAGS_updateableReadWrite
    \<and> FLAGS_updateableReadWrite AND FLAGS_nullable = 0
    \<and> FLAGS_updateableReadWrite AND FLAGS_nullableUnknown = 0"
    by (simp add: FLAGS_values)
  from 1 2 3 4 show ?thesis by blast
qed

theorem registered_column_flags_witness:
  "constructor ''t'' ex_tds_7_4 ex_no_Options = Inr ex_BulkLoad
   \<and> ex_not_null_columns =
       run ex_TOKEN_TYPE
         [AddColumn ''a'' ex_TinyInt ex_no_ColumnOptions,
          AddColumn ''b'' ex_TinyInt (ex_no_ColumnOptions\<lparr>co_nullable := Some False\<rparr>)]
         ex_BulkLoad
   \<and> columns ex_not_null_columns =
       [ex_column ''a'', (ex_column ''b'')\<lparr>col_nullable := Some False\<rparr>]
   \<and> getColMetaData ex_TOKEN_TYPE ex_not_null_columns =
       Inr [0x81, 2, 0, 0, 0, 0, 0, 5, 0, 0x26, 1, 1, 0x61, 0,
                        0, 0, 0, 0, 4, 0, 0x26, 1, 1, 0x62, 0]
   \<and> [0x81, 2, 0, 0, 0, 0, 0, 5, 0, 0x26, 1, 1, 0x61, 0,
                   0, 0, 0, 0, 4, 0, 0x26, 1, 1, 0x62, 0] =
       [COLMETADATA ex_TOKEN_TYPE, of_nat (length (columns ex_not_null_columns)),
        of_nat (length (columns ex_not_null_columns) div 256)] @
       concat (map (\<lambda>c. (if js_lt (tdsVersion ex_tds_7_4) ''7_2'' then [0, 0] else [0, 0, 0, 0])
                       @ [of_int (if col_nullable c = Some True
                                  then FLAGS_updateableReadWrite OR FLAGS_nullable
                                  else FLAGS_updateableReadWrite), 0]
                       @ fst (writeTypeInfo (col_type c) (column_fields.truncate c) ex_tds_7_4)
                       @ of_nat (length (col_name c)) # ucs2 (col_name c))
                 (columns ex_not_null_columns))"
proof -
  note t = registered_column_flags [OF ex_BulkLoad_constructed, of ex_TOKEN_TYPE
      "[AddColumn ''a'' ex_TinyInt ex_no_ColumnOptions,
        AddColumn ''b'' ex_TinyInt (ex_no_ColumnOptions\<lparr>co_nullable := Some False\<rparr>)]",
      folded ex_not_null_columns_def]
  from t ex_not_null_getColMetaData have "[0x81, 2, 0, 0, 0, 0, 0, 5, 0, 0x26, 1, 1, 0x61, 0,
                   0, 0, 0, 0, 4, 0, 0x26, 1, 1, 0x62, 0] =
       [COLMETADATA ex_TOKEN_TYPE, of_nat (length (columns ex_not_null_columns)),
        of_nat (length (columns ex_not_null_columns) div 256)] @
       concat (map (\<lambda>c. (if js_lt (tdsVersion ex_tds_7_4) ''7_2'' then [0, 0] else [0, 0, 0, 0])
                       @ [of_int (if col_nullable c = Some True
                                  then FLAGS_updateableReadWrite OR FLAGS_nullable
                                  else FLAGS_updateableReadWrite), 0]
                       @ fst (writeTypeInfo (col_type c) (column_fields.truncate c) ex_tds_7_4)
                       @ of_nat (length (col_name c)) # ucs2 (col_name c))
                 (columns ex_not_null_columns))"
    by blast
  with ex_BulkLoad_constructed ex_not_null_columns_def ex_not_null_columns_fields(1)
    ex_not_null_getColMetaData
  show ?thesis by blast
qed

end
